theory Spec2Isabelle
  imports Main "HOL-Library.Word"
begin

section \<open>Strings\<close>

text \<open>
  A Python \<open>str\<close> is modelled as a \<open>string\<close>: a list of characters, each character a
  code point below 256.  \<open>isspace\<close> is \<open>str.isspace\<close> on these code points: the ASCII
  white space (tab, line feed, vertical tab, form feed, carriage return, space), the
  four separators \<open>0x1c\<close> to \<open>0x1f\<close>, and \<open>0x85\<close> and \<open>0xa0\<close>.
\<close>

definition isspace :: "char \<Rightarrow> bool" where
  "isspace c = (of_char c \<in> {9, 10, 11, 12, 13, 28, 29, 30, 31, 32, 133, 160 :: nat})"

text \<open>\<open>s.strip()\<close>: white space removed at both ends.\<close>

definition strip :: "string \<Rightarrow> string" where
  "strip s = rev (dropWhile isspace (rev (dropWhile isspace s)))"

text \<open>
  \<open>s.split(sep)\<close> for a one-character separator: the pieces between the separators,
  empty pieces kept; the empty string gives one empty piece.
\<close>

fun split :: "char \<Rightarrow> string \<Rightarrow> string list" where
  "split sep [] = [[]]"
| "split sep (c # cs) =
     (if c = sep then [] # split sep cs
      else (case split sep cs of
              [] \<Rightarrow> [[c]]
            | w # ws \<Rightarrow> (c # w) # ws))"

text \<open>\<open>sep.join(pieces)\<close>, used to say what \<open>split\<close> computes.\<close>

fun join :: "char \<Rightarrow> string list \<Rightarrow> string" where
  "join sep [] = []"
| "join sep [w] = w"
| "join sep (w # v # ws) = w @ sep # join sep (v # ws)"

section \<open>The text-generation service\<close>

text \<open>
  \<open>model.generate_content(prompt)\<close> followed by \<open>response.text\<close> either gives a text or
  raises an exception \<open>e\<close>; of the exception only \<open>str(e)\<close> is used.  The service is
  outside the program, so it is a parameter: its answer may depend on the prompt and on
  the prompts sent before.  The state of the program is the list of prompts sent so far.
\<close>

datatype response = Text string | Raises string

type_synonym calls = "string list"

type_synonym service = "calls \<Rightarrow> string \<Rightarrow> response"

definition generate_content :: "service \<Rightarrow> string \<Rightarrow> calls \<Rightarrow> response \<times> calls" where
  "generate_content svc prompt lg = (svc lg prompt, lg @ [prompt])"

section \<open>The enrichment client\<close>

text \<open>
  Each function builds its prompt, calls the service inside \<open>try\<close>, and returns the
  response text, or in the \<open>except Exception as e\<close> branch its own message followed by
  \<open>str(e)\<close>.
\<close>

definition summarize_experience :: "service \<Rightarrow> string \<Rightarrow> calls \<Rightarrow> string \<times> calls" where
  "summarize_experience svc description lg =
     (let prompt = ''Summarize the following job description in 3 concise bullet points, highlighting accomplishments and quantifiable results.  Focus on keywords that would be relevant to recruiters:\<newline>\<newline>'' @ description
      in case generate_content svc prompt lg of
           (Text t, lg') \<Rightarrow> (t, lg')
         | (Raises e, lg') \<Rightarrow> (''Error summarizing experience: '' @ e, lg'))"

definition generate_skills_suggestions :: "service \<Rightarrow> string \<Rightarrow> calls \<Rightarrow> string \<times> calls" where
  "generate_skills_suggestions svc description lg =
     (let prompt = ''Extract a list of relevant skills from the following job description:\<newline>\<newline>'' @ description
      in case generate_content svc prompt lg of
           (Text t, lg') \<Rightarrow> (t, lg')
         | (Raises e, lg') \<Rightarrow> (''Error generating skills: '' @ e, lg'))"

definition generate_cover_letter :: "service \<Rightarrow> string \<Rightarrow> string \<Rightarrow> calls \<Rightarrow> string \<times> calls" where
  "generate_cover_letter svc name job_description lg =
     (let prompt = ''Write a cover letter for '' @ name @ '' based on the following job description.  The cover letter should be concise and highlight relevant skills and experience.  Make it professional and engaging:\<newline>\<newline>'' @ job_description
      in case generate_content svc prompt lg of
           (Text t, lg') \<Rightarrow> (t, lg')
         | (Raises e, lg') \<Rightarrow> (''Error generating cover letter: '' @ e, lg'))"

definition suggest_improvements :: "service \<Rightarrow> string \<Rightarrow> string \<Rightarrow> calls \<Rightarrow> string \<times> calls" where
  "suggest_improvements svc job_description skills lg =
     (let prompt = ''Based on the following job description and provided skills, suggest improvements to strengthen the profile, including relevant certifications, projects, or portfolios to add: \<newline>\<newline>Job Description: '' @ job_description @ ''\<newline>Skills: '' @ skills
      in case generate_content svc prompt lg of
           (Text t, lg') \<Rightarrow> (t, lg')
         | (Raises e, lg') \<Rightarrow> (''Error generating suggestions: '' @ e, lg'))"

definition extract_skills_qualifications :: "service \<Rightarrow> string \<Rightarrow> calls \<Rightarrow> string \<times> calls" where
  "extract_skills_qualifications svc job_description lg =
     (let prompt = ''Extract key skills, qualifications, and responsibilities from the following job description:\<newline>\<newline>'' @ job_description
      in case generate_content svc prompt lg of
           (Text t, lg') \<Rightarrow> (t, lg')
         | (Raises e, lg') \<Rightarrow> (''Error extracting skills and qualifications: '' @ e, lg'))"

definition highlight_missing_skills :: "service \<Rightarrow> string \<Rightarrow> string \<Rightarrow> calls \<Rightarrow> string \<times> calls" where
  "highlight_missing_skills svc user_skills extracted_skills lg =
     (let prompt = ''You are a career expert comparing two lists of skills. Given the following list of skills the candidate posesses: '' @ user_skills @ '', and the following list of skills required by a job description: '' @ extracted_skills @ '', what skills are the candidate missing?\<newline>    Make your response a comma separated list of skills''
      in case generate_content svc prompt lg of
           (Text t, lg') \<Rightarrow> (t, lg')
         | (Raises e, lg') \<Rightarrow> (''Error highlighting missing skills: '' @ e, lg'))"

text \<open>
  \<open>suggest_profile_improvements\<close> formats a dictionary into its prompt; the argument
  here is the text Python prints for that dictionary.
\<close>

definition suggest_profile_improvements :: "service \<Rightarrow> string \<Rightarrow> calls \<Rightarrow> string \<times> calls" where
  "suggest_profile_improvements svc linkedin_data lg =
     (let prompt = ''Based on the following LinkedIn profile data, suggest improvements to the profile to make it stronger based on industry best practices. Consider profile completeness, keyword usage, and showcasing accomplishments:\<newline>\<newline>'' @ linkedin_data
      in case generate_content svc prompt lg of
           (Text t, lg') \<Rightarrow> (t, lg')
         | (Raises e, lg') \<Rightarrow> (''Error suggesting profile improvements: '' @ e, lg'))"

definition generate_interview_questions :: "service \<Rightarrow> string \<Rightarrow> calls \<Rightarrow> string \<times> calls" where
  "generate_interview_questions svc resume_content lg =
     (let prompt = ''Generate potential interview questions based on the following resume content. Cover a range of topics, including experience, skills, and projects:\<newline>\<newline>'' @ resume_content
      in case generate_content svc prompt lg of
           (Text t, lg') \<Rightarrow> (t, lg')
         | (Raises e, lg') \<Rightarrow> (''Error generating interview questions: '' @ e, lg'))"

definition analyze_strengths_weaknesses :: "service \<Rightarrow> string \<Rightarrow> calls \<Rightarrow> string \<times> calls" where
  "analyze_strengths_weaknesses svc resume_content lg =
     (let prompt = ''Analyze the strengths and weaknesses of a candidate based on the following resume content. Provide constructive feedback:\<newline>\<newline>'' @ resume_content
      in case generate_content svc prompt lg of
           (Text t, lg') \<Rightarrow> (t, lg')
         | (Raises e, lg') \<Rightarrow> (''Error analyzing strengths and weaknesses: '' @ e, lg'))"

section \<open>The document\<close>

text \<open>
  A \<open>docx\<close> document is the list of its paragraphs, each with a style and a text; a new
  document has none.  \<open>add_heading(text, level)\<close> appends a paragraph of style
  \<open>Heading level\<close> (for the levels 1 and 2 used here), \<open>add_paragraph(text, style)\<close> a
  paragraph of the given style, \<open>Normal\<close> when none is given.
\<close>

datatype style = Normal | Heading nat | ListBullet

datatype par = Paragraph (style: style) (ptext: string)

type_synonym document = "par list"

definition Document :: document where
  "Document = []"

definition add_heading :: "string \<Rightarrow> nat \<Rightarrow> document \<Rightarrow> document" where
  "add_heading t level document = document @ [Paragraph (Heading level) t]"

definition add_paragraph :: "string \<Rightarrow> style \<Rightarrow> document \<Rightarrow> document" where
  "add_paragraph t sty document = document @ [Paragraph sty t]"

section \<open>The document assembler\<close>

text \<open>
  An entry is a dictionary from field names to strings; reading a field that is not
  there raises \<open>KeyError\<close>, which \<open>generate_resume\<close> does not catch.
\<close>

type_synonym entry = "string \<rightharpoonup> string"

datatype error = KeyError string

text \<open>
  The loop over the experience entries.  A description that is present and not empty
  is replaced by the result of \<open>summarize_experience\<close>; in the other branch the source
  reads \<open>exp['description']\<close> again.
\<close>

fun add_experience ::
  "service \<Rightarrow> entry list \<Rightarrow> document \<Rightarrow> calls \<Rightarrow> (error + document) \<times> calls" where
  "add_experience svc [] document lg = (Inr document, lg)"
| "add_experience svc (exp # rest) document lg =
     (case exp ''title'' of
        None \<Rightarrow> (Inl (KeyError ''title''), lg)
      | Some title \<Rightarrow>
     (let document = add_paragraph title (Heading 3) document in
      case exp ''company'' of
        None \<Rightarrow> (Inl (KeyError ''company''), lg)
      | Some company \<Rightarrow>
     (case exp ''dates'' of
        None \<Rightarrow> (Inl (KeyError ''dates''), lg)
      | Some dates \<Rightarrow>
     (let document = add_paragraph (company @ '' | '' @ dates) Normal document in
      if (case exp ''description'' of None \<Rightarrow> False | Some d \<Rightarrow> d \<noteq> [])
      then
        (case summarize_experience svc (the (exp ''description'')) lg of
           (summarized_description, lg') \<Rightarrow>
             add_experience svc rest (add_paragraph summarized_description Normal document) lg')
      else
        (case exp ''description'' of
           None \<Rightarrow> (Inl (KeyError ''description''), lg)
         | Some d \<Rightarrow> add_experience svc rest (add_paragraph d Normal document) lg)))))"

fun add_education :: "entry list \<Rightarrow> document \<Rightarrow> error + document" where
  "add_education [] document = Inr document"
| "add_education (edu # rest) document =
     (case edu ''degree'' of
        None \<Rightarrow> Inl (KeyError ''degree'')
      | Some degree \<Rightarrow>
     (let document = add_paragraph degree (Heading 3) document in
      case edu ''school'' of
        None \<Rightarrow> Inl (KeyError ''school'')
      | Some school \<Rightarrow>
     (case edu ''dates'' of
        None \<Rightarrow> Inl (KeyError ''dates'')
      | Some dates \<Rightarrow>
     (let document = add_paragraph (school @ '' | '' @ dates) Normal document in
      case edu ''description'' of
        None \<Rightarrow> Inl (KeyError ''description'')
      | Some d \<Rightarrow> add_education rest (add_paragraph d Normal document)))))"

fun add_projects :: "entry list \<Rightarrow> document \<Rightarrow> error + document" where
  "add_projects [] document = Inr document"
| "add_projects (proj # rest) document =
     (case proj ''title'' of
        None \<Rightarrow> Inl (KeyError ''title'')
      | Some title \<Rightarrow>
     (let document = add_paragraph title (Heading 3) document in
      case proj ''description'' of
        None \<Rightarrow> Inl (KeyError ''description'')
      | Some d \<Rightarrow> add_projects rest (add_paragraph d Normal document)))"

definition generate_resume ::
  "service \<Rightarrow> string \<Rightarrow> string \<Rightarrow> string \<Rightarrow> string \<Rightarrow> string \<Rightarrow> string \<Rightarrow>
   entry list \<Rightarrow> entry list \<Rightarrow> entry list \<Rightarrow> calls \<Rightarrow> (error + document) \<times> calls" where
  "generate_resume svc name email phone linkedin github skills experience education projects lg =
     (let document = Document;
          document = add_heading name 1 document;
          header_info = email @ '' | '' @ phone @ '' | [LinkedIn]('' @ linkedin
                          @ '') | [GitHub]('' @ github @ '')'';
          document = add_paragraph header_info Normal document;
          document = add_heading ''Skills'' 2 document;
          skills_list = split CHR '','' skills;
          document = foldl (\<lambda>document skill. add_paragraph (strip skill) ListBullet document)
                       document skills_list;
          document = add_heading ''Experience'' 2 document
      in case add_experience svc experience document lg of
           (Inl err, lg') \<Rightarrow> (Inl err, lg')
         | (Inr document, lg') \<Rightarrow>
        (case add_education education (add_heading ''Education'' 2 document) of
           Inl err \<Rightarrow> (Inl err, lg')
         | Inr document \<Rightarrow>
        (case add_projects projects (add_heading ''Projects'' 2 document) of
           Inl err \<Rightarrow> (Inl err, lg')
         | Inr document \<Rightarrow> (Inr document, lg'))))"

section \<open>Reading a document back\<close>

text \<open>
  \<open>groups P\<close> cuts a document at the paragraphs that satisfy \<open>P\<close>: each such paragraph
  with the paragraphs after it, up to the next one.  The sections of a document start at
  the headings of level 1 and 2, the entries of a section at the paragraphs of style
  \<open>Heading 3\<close>.
\<close>

function groups :: "(par \<Rightarrow> bool) \<Rightarrow> document \<Rightarrow> (par \<times> par list) list" where
  "groups P [] = []"
| "groups P (p # ps) =
     (if P p then (p, takeWhile (\<lambda>q. \<not> P q) ps) # groups P (dropWhile (\<lambda>q. \<not> P q) ps)
      else groups P ps)"
  by pat_completeness auto
termination
  by (relation "measure (\<lambda>(P, ps). length ps)")
     (auto simp: le_imp_less_Suc length_dropWhile_le)

definition section_heading :: "par \<Rightarrow> bool" where
  "section_heading p = (style p = Heading 1 \<or> style p = Heading 2)"

definition entry_heading :: "par \<Rightarrow> bool" where
  "entry_heading p = (style p = Heading 3)"

definition sections :: "document \<Rightarrow> (par \<times> par list) list" where
  "sections document = groups section_heading document"

definition sub_blocks :: "par list \<Rightarrow> (par \<times> par list) list" where
  "sub_blocks body = groups entry_heading body"

text \<open>The fields the data model gives each kind of entry.\<close>

definition has_fields :: "string list \<Rightarrow> entry \<Rightarrow> bool" where
  "has_fields ks e = list_all (\<lambda>k. e k \<noteq> None) ks"

definition experience_entry :: "entry \<Rightarrow> bool" where
  "experience_entry e = has_fields [''title'', ''company'', ''dates'', ''description''] e"

definition education_entry :: "entry \<Rightarrow> bool" where
  "education_entry e = has_fields [''degree'', ''school'', ''dates'', ''description''] e"

definition project_entry :: "entry \<Rightarrow> bool" where
  "project_entry e = has_fields [''title'', ''description''] e"

section \<open>The exporter\<close>

text \<open>
  \<open>base64.b64encode\<close> is the encoding of RFC 4648 with the standard alphabet and
  padding: three bytes become four characters, each naming six bits; a last group of one
  or two bytes is filled with zero bits and padded with \<open>=\<close>.  Its result consists of
  ASCII characters, so \<open>.decode()\<close> gives the same characters as a string.
  \<open>b64decode\<close> is the decoding of the same RFC, as a reader of the link performs it.
\<close>

type_synonym byte = "8 word"

definition b64_alphabet :: string where
  "b64_alphabet = ''ABCDEFGHIJKLMNOPQRSTUVWXYZabcdefghijklmnopqrstuvwxyz0123456789+/''"

definition b64_char :: "nat \<Rightarrow> char" where
  "b64_char i = b64_alphabet ! i"

fun b64encode :: "byte list \<Rightarrow> string" where
  "b64encode [] = []"
| "b64encode [a] =
     (let n = unat a * 65536
      in [b64_char (n div 262144), b64_char (n div 4096 mod 64), CHR ''='', CHR ''=''])"
| "b64encode [a, b] =
     (let n = unat a * 65536 + unat b * 256
      in [b64_char (n div 262144), b64_char (n div 4096 mod 64), b64_char (n div 64 mod 64),
          CHR ''=''])"
| "b64encode (a # b # c # rest) =
     (let n = unat a * 65536 + unat b * 256 + unat c
      in [b64_char (n div 262144), b64_char (n div 4096 mod 64), b64_char (n div 64 mod 64),
          b64_char (n mod 64)] @ b64encode rest)"

definition b64_index :: "char \<Rightarrow> nat option" where
  "b64_index c = map_of (zip b64_alphabet [0..<64]) c"

fun b64decode :: "string \<Rightarrow> byte list option" where
  "b64decode [] = Some []"
| "b64decode (c0 # c1 # c2 # c3 # rest) =
     (case (b64_index c0, b64_index c1) of
        (Some i0, Some i1) \<Rightarrow>
          if c2 = CHR ''='' \<and> c3 = CHR ''='' \<and> rest = []
          then Some [of_nat ((i0 * 64 + i1) div 16)]
          else (case b64_index c2 of
                  None \<Rightarrow> None
                | Some i2 \<Rightarrow>
                    if c3 = CHR ''='' \<and> rest = []
                    then (let n = (i0 * 4096 + i1 * 64 + i2) div 4
                          in Some [of_nat (n div 256), of_nat (n mod 256)])
                    else (case b64_index c3 of
                            None \<Rightarrow> None
                          | Some i3 \<Rightarrow>
                              (let n = i0 * 262144 + i1 * 4096 + i2 * 64 + i3
                               in map_option
                                    (\<lambda>bs. [of_nat (n div 65536), of_nat (n div 256 mod 256),
                                           of_nat (n mod 256)] @ bs)
                                    (b64decode rest))))
      | _ \<Rightarrow> None)"
| "b64decode _ = None"



section \<open>The page\<close>

text \<open>
  What the script shows is the list of the \<open>st\<close> calls that display something, in the
  order they are made.  The values of the input widgets are arguments of \<open>main\<close>; the
  rows of the three repeated groups are lists, their lengths the entry counts chosen in
  the form.  An exception that leaves \<open>main\<close> ends the run and is shown last.
\<close>

datatype st =
    St_title string | St_header string | St_subheader string | St_write string
  | St_error string | St_warning string | St_success string | St_markdown string
  | St_image "byte list" string | St_exception error

text \<open>
  The libraries behind the page are parameters: \<open>urlparse\<close> gives scheme, network
  location and path of a URL, or nothing when it raises; \<open>docx_save\<close> is the
  serialization of a document by \<open>document.save\<close>; \<open>qr_png\<close> is the bitmap the
  \<open>qrcode\<close> library renders for a string, saved as PNG.
\<close>

record libs =
  urlparse :: "string \<Rightarrow> (string \<times> string \<times> string) option"
  docx_save :: "document \<Rightarrow> byte list"
  qr_png :: "string \<Rightarrow> byte list"

text \<open>\<open>str(n)\<close> for a natural number, as an f-string prints it.\<close>

definition digit_char :: "nat \<Rightarrow> char" where
  "digit_char d = ''0123456789'' ! d"

function str :: "nat \<Rightarrow> string" where
  "str n = (if n < 10 then [digit_char n] else str (n div 10) @ [digit_char (n mod 10)])"
  by pat_completeness auto
termination
  by (relation "measure id") auto

declare str.simps [simp del]

definition generate_qr_code :: "libs \<Rightarrow> string \<Rightarrow> byte list" where
  "generate_qr_code lib data = qr_png lib data"

definition is_valid_linkedin_url :: "libs \<Rightarrow> string \<Rightarrow> bool" where
  "is_valid_linkedin_url lib url =
     (case urlparse lib url of
        None \<Rightarrow> False
      | Some (scheme, netloc, path) \<Rightarrow>
          scheme \<noteq> [] \<and> netloc = ''www.linkedin.com'' \<and> take 4 path = ''/in/'')"

text \<open>
  \<open>fetch_linkedin_data\<close> shows a warning and returns a fixed dictionary; the dictionary
  is only tested for being non-empty and formatted into a prompt, so it is modelled by
  the text Python prints for it.
\<close>

definition linkedin_example :: string where
  "linkedin_example =
     ''{'name': 'John Doe (Example)', 'skills': 'Python, Data Analysis, Machine Learning', 'experience': [{'title': 'Data Scientist', 'company': 'Example Corp', 'dates': '2020-Present', 'description': 'Built machine learning models.'}], 'education': [{'degree': ''
     @ [CHR 0x22] @ ''Master's in CS'' @ [CHR 0x22]
     @ '', 'school': 'Example University', 'dates': '2018-2020', 'description': 'Focus on AI.'}]}''"

definition fetch_linkedin_data :: "string \<Rightarrow> st list \<times> string option" where
  "fetch_linkedin_data linkedin_url =
     ([St_warning ''Fetching LinkedIn data directly is risky.  Use a LinkedIn API or proceed with caution.''],
      Some linkedin_example)"

text \<open>The three loops of the form; \<open>i\<close> is the loop index.\<close>

fun experience_form ::
  "service \<Rightarrow> nat \<Rightarrow> (string \<times> string \<times> string \<times> string) list \<Rightarrow> calls
     \<Rightarrow> (st list \<times> entry list) \<times> calls" where
  "experience_form svc i [] lg = (([], []), lg)"
| "experience_form svc i ((title, company, dates, description) # rows) lg =
     (case generate_skills_suggestions svc description lg of
        (skills_suggestions, lg1) \<Rightarrow>
     (case experience_form svc (i + 1) rows lg1 of
        ((shown, experience), lg2) \<Rightarrow>
          ((St_subheader (''Experience #'' @ str (i + 1))
              # St_write (''Suggested Skills for this Experience:\<newline>'' @ skills_suggestions)
              # shown,
            [''title'' \<mapsto> title, ''company'' \<mapsto> company, ''dates'' \<mapsto> dates,
             ''description'' \<mapsto> description] # experience),
           lg2)))"

fun education_form ::
  "nat \<Rightarrow> (string \<times> string \<times> string \<times> string) list \<Rightarrow> st list \<times> entry list" where
  "education_form i [] = ([], [])"
| "education_form i ((degree, school, dates, description) # rows) =
     (case education_form (i + 1) rows of
        (shown, education) \<Rightarrow>
          (St_subheader (''Education #'' @ str (i + 1)) # shown,
           [''degree'' \<mapsto> degree, ''school'' \<mapsto> school, ''dates'' \<mapsto> dates,
            ''description'' \<mapsto> description] # education))"

fun project_form :: "nat \<Rightarrow> (string \<times> string) list \<Rightarrow> st list \<times> entry list" where
  "project_form i [] = ([], [])"
| "project_form i ((title, description) # rows) =
     (case project_form (i + 1) rows of
        (shown, projects) \<Rightarrow>
          (St_subheader (''Project #'' @ str (i + 1)) # shown,
           [''title'' \<mapsto> title, ''description'' \<mapsto> description] # projects))"

text \<open>
  The part of \<open>main\<close> after the validation: the \<open>else\<close> branch of
  \<open>if not name or not email or not skills\<close>.
\<close>

definition process_submission ::
  "service \<Rightarrow> libs \<Rightarrow> string \<Rightarrow> string \<Rightarrow> string \<Rightarrow> string \<Rightarrow> string \<Rightarrow> string \<Rightarrow>
   entry list \<Rightarrow> entry list \<Rightarrow> entry list \<Rightarrow> string \<Rightarrow> calls \<Rightarrow> st list \<times> calls" where
  "process_submission svc lib name email phone linkedin github skills experience education
     projects job_description lg =
     (case (if linkedin \<noteq> [] \<and> is_valid_linkedin_url lib linkedin
            then (case fetch_linkedin_data linkedin of
                    (shown, None) \<Rightarrow> (shown, lg)
                  | (shown, Some linkedin_data) \<Rightarrow>
                      (case suggest_profile_improvements svc linkedin_data lg of
                         (profile_improvements, lg') \<Rightarrow>
                           (shown @ [St_success ''LinkedIn data fetched (with caution!).'',
                                     St_header ''LinkedIn Profile Improvement Suggestions'',
                                     St_write profile_improvements], lg')))
            else ([St_warning ''Invalid LinkedIn URL or LinkedIn integration skipped.''], lg)) of
        (shown_linkedin, lg0) \<Rightarrow>
     (case generate_resume svc name email phone linkedin github skills experience education
             projects lg0 of
        (Inl err, lg1) \<Rightarrow> (shown_linkedin @ [St_exception err], lg1)
      | (Inr document, lg1) \<Rightarrow>
     (let resume_text = concat (map (\<lambda>paragraph. ptext paragraph @ ''\<newline>'') document);
          buffer = docx_save lib document;
          b64 = b64encode buffer;
          href = ''<a href='' @ [CHR 0x22]
                   @ ''data:application/vnd.openxmlformats-officedocument.wordprocessingml.document;base64,''
                   @ b64 @ [CHR 0x22] @ '' download='' @ [CHR 0x22] @ name @ ''_resume.docx''
                   @ [CHR 0x22] @ ''>Download Resume (docx)</a>'';
          resume_url = ''https://linkedin.com/in/'' @ linkedin;
          qr_code_image = generate_qr_code lib resume_url
      in
     (case generate_cover_letter svc name job_description lg1 of
        (cover_letter, lg2) \<Rightarrow>
     (case suggest_improvements svc job_description skills lg2 of
        (improvements, lg3) \<Rightarrow>
     (case extract_skills_qualifications svc job_description lg3 of
        (extracted_skills, lg4) \<Rightarrow>
     (case highlight_missing_skills svc skills extracted_skills lg4 of
        (missing_skills, lg5) \<Rightarrow>
     (case generate_interview_questions svc resume_text lg5 of
        (interview_questions, lg6) \<Rightarrow>
     (case analyze_strengths_weaknesses svc resume_text lg6 of
        (strengths_weaknesses, lg7) \<Rightarrow>
          (shown_linkedin @
           [St_markdown href,
            St_image qr_code_image ''Scan to view interactive resume (placeholder)'',
            St_header ''Generated Cover Letter'', St_write cover_letter,
            St_header ''Suggested Improvements'', St_write improvements,
            St_header ''Extracted Skills from Job Description'', St_write extracted_skills,
            St_header ''Missing Skills (Based on Job Description)'', St_write missing_skills,
            St_header ''Possible Interview Questions'', St_write interview_questions,
            St_header ''Strengths and Weaknesses Analysis'', St_write strengths_weaknesses],
           lg7))))))))))"

definition main ::
  "service \<Rightarrow> libs \<Rightarrow> string \<Rightarrow> string \<Rightarrow> string \<Rightarrow> string \<Rightarrow> string \<Rightarrow> string \<Rightarrow>
   (string \<times> string \<times> string \<times> string) list \<Rightarrow> (string \<times> string \<times> string \<times> string) list \<Rightarrow>
   (string \<times> string) list \<Rightarrow> string \<Rightarrow> bool \<Rightarrow> calls \<Rightarrow> st list \<times> calls" where
  "main svc lib name email phone linkedin github skills experience_rows education_rows
     project_rows job_description submitted lg =
     (case experience_form svc 0 experience_rows lg of
        ((shown_experience, experience), lg') \<Rightarrow>
     (case education_form 0 education_rows of
        (shown_education, education) \<Rightarrow>
     (case project_form 0 project_rows of
        (shown_projects, projects) \<Rightarrow>
     (let form = [St_title ''Smart Resume Generator'', St_header ''Personal Information'',
                  St_header ''Skills'', St_header ''Experience''] @ shown_experience
                 @ [St_header ''Education''] @ shown_education
                 @ [St_header ''Projects''] @ shown_projects
                 @ [St_header ''Job Description Analysis'']
      in if submitted
         then if name = [] \<or> email = [] \<or> skills = []
              then (form @ [St_error ''Please fill in all required fields (Name, Email, Skills).''],
                    lg')
              else (case process_submission svc lib name email phone linkedin github skills
                           experience education projects job_description lg' of
                      (shown, lg'') \<Rightarrow> (form @ shown, lg''))
         else (form, lg')))))"

section \<open>Startup\<close>

text \<open>
  The module level of the script.  \<open>load_dotenv()\<close> adds the variables of the \<open>.env\<close>
  file that the process environment does not have yet; \<open>os.getenv\<close> then reads the
  key.  When the key is \<open>None\<close> or empty the script shows an error and \<open>st.stop()\<close> ends
  the run; otherwise it goes on to \<open>main\<close>.
\<close>

definition load_dotenv :: "(string \<rightharpoonup> string) \<Rightarrow> (string \<rightharpoonup> string) \<Rightarrow> (string \<rightharpoonup> string)" where
  "load_dotenv dotenv environ = (\<lambda>k. case environ k of Some v \<Rightarrow> Some v | None \<Rightarrow> dotenv k)"

definition getenv :: "(string \<rightharpoonup> string) \<Rightarrow> string \<Rightarrow> string option" where
  "getenv environ k = environ k"

definition app2 ::
  "(string \<rightharpoonup> string) \<Rightarrow> (string \<rightharpoonup> string) \<Rightarrow> service \<Rightarrow> libs \<Rightarrow>
   string \<Rightarrow> string \<Rightarrow> string \<Rightarrow> string \<Rightarrow> string \<Rightarrow> string \<Rightarrow>
   (string \<times> string \<times> string \<times> string) list \<Rightarrow> (string \<times> string \<times> string \<times> string) list \<Rightarrow>
   (string \<times> string) list \<Rightarrow> string \<Rightarrow> bool \<Rightarrow> calls \<Rightarrow> st list \<times> calls" where
  "app2 dotenv environ svc lib name email phone linkedin github skills experience_rows
     education_rows project_rows job_description submitted lg =
     (let GOOGLE_API_KEY = getenv (load_dotenv dotenv environ) ''GOOGLE_API_KEY''
      in if (case GOOGLE_API_KEY of None \<Rightarrow> True | Some k \<Rightarrow> k = [])
         then ([St_error ''Please set the GOOGLE_API_KEY environment variable.''], lg)
         else main svc lib name email phone linkedin github skills experience_rows
                education_rows project_rows job_description submitted lg)"

section \<open>Reading the page back\<close>

text \<open>
  The download link is the only \<open>st.markdown\<close> call and the messages about missing
  input and a missing key the only \<open>st.error\<close> calls.  \<open>form_shown\<close> is what the form
  itself shows, before \<open>if submitted\<close>.
\<close>

fun is_markdown :: "st \<Rightarrow> bool" where
  "is_markdown (St_markdown href) = True"
| "is_markdown _ = False"

fun is_error :: "st \<Rightarrow> bool" where
  "is_error (St_error message) = True"
| "is_error _ = False"

definition form_shown ::
  "service \<Rightarrow> (string \<times> string \<times> string \<times> string) list \<Rightarrow>
   (string \<times> string \<times> string \<times> string) list \<Rightarrow> (string \<times> string) list \<Rightarrow> calls \<Rightarrow> st list" where
  "form_shown svc experience_rows education_rows project_rows lg =
     [St_title ''Smart Resume Generator'', St_header ''Personal Information'',
      St_header ''Skills'', St_header ''Experience'']
     @ fst (fst (experience_form svc 0 experience_rows lg))
     @ [St_header ''Education''] @ fst (education_form 0 education_rows)
     @ [St_header ''Projects''] @ fst (project_form 0 project_rows)
     @ [St_header ''Job Description Analysis'']"

section \<open>The layout of a resume\<close>

text \<open>
  Names for the parts of the document that \<open>generate_resume\<close> builds: the block of one
  entry (its heading of style \<open>Heading 3\<close> and \<open>n\<close> paragraphs of style \<open>Normal\<close>), the
  contact line, the bullets of the Skills section, and the document up to the heading of
  the Experience section.
\<close>

definition entry_block :: "nat \<Rightarrow> par list \<Rightarrow> bool" where
  "entry_block n b =
     (case b of [] \<Rightarrow> False
      | h # ps \<Rightarrow> style h = Heading 3 \<and> length ps = n \<and> list_all (\<lambda>p. style p = Normal) ps)"

definition header_info :: "string \<Rightarrow> string \<Rightarrow> string \<Rightarrow> string \<Rightarrow> string" where
  "header_info email phone linkedin github =
     email @ '' | '' @ phone @ '' | [LinkedIn]('' @ linkedin @ '') | [GitHub]('' @ github @ '')''"

definition bullets :: "string \<Rightarrow> par list" where
  "bullets skills = map (\<lambda>skill. Paragraph ListBullet (strip skill)) (split CHR '','' skills)"

definition resume_head :: "string \<Rightarrow> string \<Rightarrow> string \<Rightarrow> string \<Rightarrow> string \<Rightarrow> string \<Rightarrow> document" where
  "resume_head name email phone linkedin github skills =
     Paragraph (Heading 1) name # Paragraph Normal (header_info email phone linkedin github)
       # Paragraph (Heading 2) ''Skills'' # bullets skills @ [Paragraph (Heading 2) ''Experience'']"

section \<open>Auxiliary facts\<close>

lemma groups_block:
  assumes "P h" and "\<forall>q\<in>set body. \<not> P q" and "rest = [] \<or> P (hd rest)"
  shows "groups P (h # body @ rest) = (h, body) # groups P rest"
proof -
  have t: "takeWhile (\<lambda>q. \<not> P q) (body @ rest) = body"
    using assms(2,3) by (cases rest) (auto simp: takeWhile_append2)
  have d: "dropWhile (\<lambda>q. \<not> P q) (body @ rest) = rest"
    using assms(2,3) by (cases rest) (auto simp: dropWhile_append2)
  show ?thesis using assms(1) t d by simp
qed

lemma entry_block_not_section:
  "entry_block n b \<Longrightarrow> p \<in> set b \<Longrightarrow> \<not> section_heading p"
  by (cases b) (auto simp: entry_block_def section_heading_def list_all_iff)

lemma sub_blocks_concat:
  "list_all (entry_block n) blocks \<Longrightarrow>
   sub_blocks (concat blocks) = map (\<lambda>b. (hd b, tl b)) blocks"
proof (induction blocks)
  case Nil
  then show ?case by (simp add: sub_blocks_def)
next
  case (Cons b blocks)
  from Cons.prems obtain h ps where b: "b = h # ps" "style h = Heading 3"
      "list_all (\<lambda>p. style p = Normal) ps"
    by (cases b) (auto simp: entry_block_def)
  have rest: "concat blocks = [] \<or> entry_heading (hd (concat blocks))"
  proof (cases blocks)
    case Nil then show ?thesis by simp
  next
    case (Cons c cs)
    with Cons.prems show ?thesis
      by (cases c) (auto simp: entry_block_def entry_heading_def)
  qed
  have "groups entry_heading (h # ps @ concat blocks) = (h, ps) # groups entry_heading (concat blocks)"
    using b rest by (intro groups_block) (auto simp: entry_heading_def list_all_iff)
  with Cons b show ?case by (simp add: sub_blocks_def)
qed

lemma add_experience_shape:
  "list_all experience_entry es \<Longrightarrow>
   \<exists>blocks lg'. add_experience svc es doc lg = (Inr (doc @ concat blocks), lg')
      \<and> length blocks = length es \<and> list_all (entry_block 2) blocks"
proof (induction es arbitrary: doc lg)
  case Nil
  show ?case by (rule exI [of _ "[]"]) simp
next
  case (Cons e es)
  from Cons.prems obtain t c dts d where f: "e ''title'' = Some t" "e ''company'' = Some c"
      "e ''dates'' = Some dts" "e ''description'' = Some d"
    by (auto simp: experience_entry_def has_fields_def)
  from Cons.prems have es: "list_all experience_entry es" by simp
  define s where "s = (if d \<noteq> [] then fst (summarize_experience svc d lg) else d)"
  define lg1 where "lg1 = (if d \<noteq> [] then snd (summarize_experience svc d lg) else lg)"
  define b where "b = [Paragraph (Heading 3) t, Paragraph Normal (c @ '' | '' @ dts), Paragraph Normal s]"
  have step: "add_experience svc (e # es) doc lg = add_experience svc es (doc @ b) lg1"
    using f by (simp add: add_paragraph_def s_def lg1_def b_def split: prod.splits)
  from Cons.IH [OF es, of "doc @ b" lg1] obtain blocks lg' where
    r: "add_experience svc es (doc @ b) lg1 = (Inr ((doc @ b) @ concat blocks), lg')"
       "length blocks = length es" "list_all (entry_block 2) blocks"
    by blast
  have "entry_block 2 b" by (simp add: b_def entry_block_def)
  with step r show ?case
    by (intro exI [of _ "b # blocks"] exI [of _ lg']) simp
qed

lemma add_education_shape:
  "list_all education_entry es \<Longrightarrow>
   \<exists>blocks. add_education es doc = Inr (doc @ concat blocks)
      \<and> length blocks = length es \<and> list_all (entry_block 2) blocks"
proof (induction es arbitrary: doc)
  case Nil
  show ?case by (rule exI [of _ "[]"]) simp
next
  case (Cons e es)
  from Cons.prems obtain t c dts d where f: "e ''degree'' = Some t" "e ''school'' = Some c"
      "e ''dates'' = Some dts" "e ''description'' = Some d"
    by (auto simp: education_entry_def has_fields_def)
  from Cons.prems have es: "list_all education_entry es" by simp
  define b where "b = [Paragraph (Heading 3) t, Paragraph Normal (c @ '' | '' @ dts), Paragraph Normal d]"
  have step: "add_education (e # es) doc = add_education es (doc @ b)"
    using f by (simp add: add_paragraph_def b_def)
  from Cons.IH [OF es, of "doc @ b"] obtain blocks where
    r: "add_education es (doc @ b) = Inr ((doc @ b) @ concat blocks)"
       "length blocks = length es" "list_all (entry_block 2) blocks"
    by blast
  have "entry_block 2 b" by (simp add: b_def entry_block_def)
  with step r show ?case
    by (intro exI [of _ "b # blocks"]) simp
qed

lemma add_projects_shape:
  "list_all project_entry es \<Longrightarrow>
   \<exists>blocks. add_projects es doc = Inr (doc @ concat blocks)
      \<and> length blocks = length es \<and> list_all (entry_block 1) blocks"
proof (induction es arbitrary: doc)
  case Nil
  show ?case by (rule exI [of _ "[]"]) simp
next
  case (Cons e es)
  from Cons.prems obtain t d where f: "e ''title'' = Some t" "e ''description'' = Some d"
    by (auto simp: project_entry_def has_fields_def)
  from Cons.prems have es: "list_all project_entry es" by simp
  define b where "b = [Paragraph (Heading 3) t, Paragraph Normal d]"
  have step: "add_projects (e # es) doc = add_projects es (doc @ b)"
    using f by (simp add: add_paragraph_def b_def)
  from Cons.IH [OF es, of "doc @ b"] obtain blocks where
    r: "add_projects es (doc @ b) = Inr ((doc @ b) @ concat blocks)"
       "length blocks = length es" "list_all (entry_block 1) blocks"
    by blast
  have "entry_block 1 b" by (simp add: b_def entry_block_def)
  with step r show ?case
    by (intro exI [of _ "b # blocks"]) simp
qed

lemma foldl_add_paragraph:
  "foldl (\<lambda>document skill. add_paragraph (f skill) sty document) doc xs
     = doc @ map (\<lambda>skill. Paragraph sty (f skill)) xs"
  by (induction xs arbitrary: doc) (simp_all add: add_paragraph_def)

lemma generate_resume_unfold:
  "generate_resume svc name email phone linkedin github skills experience education projects lg =
     (case add_experience svc experience (resume_head name email phone linkedin github skills) lg of
        (Inl err, lg') \<Rightarrow> (Inl err, lg')
      | (Inr document, lg') \<Rightarrow>
     (case add_education education (document @ [Paragraph (Heading 2) ''Education'']) of
        Inl err \<Rightarrow> (Inl err, lg')
      | Inr document \<Rightarrow>
     (case add_projects projects (document @ [Paragraph (Heading 2) ''Projects'']) of
        Inl err \<Rightarrow> (Inl err, lg')
      | Inr document \<Rightarrow> (Inr document, lg'))))"
  unfolding generate_resume_def Let_def foldl_add_paragraph
  by (simp add: resume_head_def bullets_def header_info_def Document_def
      add_heading_def add_paragraph_def split: prod.splits sum.splits)

lemma concat_blocks_no_section:
  "list_all (entry_block n) blocks \<Longrightarrow> \<forall>q\<in>set (concat blocks). \<not> section_heading q"
  by (auto simp: list_all_iff dest: entry_block_not_section)

lemma sections_resume:
  assumes "list_all (entry_block 2) eb" "list_all (entry_block 2) db" "list_all (entry_block 1) pb"
  shows "sections (resume_head name email phone linkedin github skills @ concat eb
           @ Paragraph (Heading 2) ''Education'' # concat db
           @ Paragraph (Heading 2) ''Projects'' # concat pb) =
         [(Paragraph (Heading 1) name, [Paragraph Normal (header_info email phone linkedin github)]),
          (Paragraph (Heading 2) ''Skills'', bullets skills),
          (Paragraph (Heading 2) ''Experience'', concat eb),
          (Paragraph (Heading 2) ''Education'', concat db),
          (Paragraph (Heading 2) ''Projects'', concat pb)]"
proof -
  let ?P = section_heading
  let ?edu = "Paragraph (Heading 2) ''Education''" and ?proj = "Paragraph (Heading 2) ''Projects''"
  let ?exp = "Paragraph (Heading 2) ''Experience''" and ?sk = "Paragraph (Heading 2) ''Skills''"
  let ?hi = "Paragraph Normal (header_info email phone linkedin github)"
  note n1 = concat_blocks_no_section [OF assms(1)]
    and n2 = concat_blocks_no_section [OF assms(2)]
    and n3 = concat_blocks_no_section [OF assms(3)]
  have 5: "groups ?P (?proj # concat pb) = [(?proj, concat pb)]"
    using groups_block [of ?P ?proj "concat pb" "[]"] n3
    by (simp add: section_heading_def del: groups.simps(2))
  have 4: "groups ?P (?edu # concat db @ ?proj # concat pb)
             = (?edu, concat db) # groups ?P (?proj # concat pb)"
    by (rule groups_block) (use n2 in \<open>simp_all add: section_heading_def\<close>)
  have 3: "groups ?P (?exp # concat eb @ ?edu # concat db @ ?proj # concat pb)
             = (?exp, concat eb) # groups ?P (?edu # concat db @ ?proj # concat pb)"
    by (rule groups_block) (use n1 in \<open>simp_all add: section_heading_def\<close>)
  have 2: "groups ?P (?sk # bullets skills @ ?exp # concat eb @ ?edu # concat db @ ?proj # concat pb)
             = (?sk, bullets skills)
                 # groups ?P (?exp # concat eb @ ?edu # concat db @ ?proj # concat pb)"
    by (rule groups_block) (auto simp add: section_heading_def bullets_def)
  have 1: "groups ?P (Paragraph (Heading 1) name # [?hi] @ ?sk # bullets skills @ ?exp # concat eb
                        @ ?edu # concat db @ ?proj # concat pb)
             = (Paragraph (Heading 1) name, [?hi])
                 # groups ?P (?sk # bullets skills @ ?exp # concat eb @ ?edu # concat db
                                @ ?proj # concat pb)"
    by (rule groups_block) (simp_all add: section_heading_def)
  show ?thesis
    unfolding sections_def resume_head_def using 1 2 3 4 5
    by (simp del: groups.simps(2))
qed

lemma split_not_Nil: "split sep s \<noteq> []"
  by (induction s) (auto split: list.splits)

lemma join_Cons: "ws \<noteq> [] \<Longrightarrow> join sep (w # ws) = w @ sep # join sep ws"
  by (cases ws) simp_all

lemma join_split: "join sep (split sep s) = s"
proof (induction s)
  case Nil
  show ?case by simp
next
  case (Cons c cs)
  show ?case
  proof (cases "c = sep")
    case True
    with Cons show ?thesis by (simp add: join_Cons split_not_Nil)
  next
    case False
    obtain w ws where s: "split sep cs = w # ws"
      using split_not_Nil [of sep cs] by (cases "split sep cs") auto
    with Cons have "join sep (w # ws) = cs" by simp
    then have "join sep ((c # w) # ws) = c # cs" by (cases ws) auto
    with False s show ?thesis by simp
  qed
qed

lemma split_no_sep: "t \<in> set (split sep s) \<Longrightarrow> sep \<notin> set t"
  by (induction s arbitrary: t) (auto split: if_splits list.splits)

lemma length_split: "length (split sep s) = Suc (count_list s sep)"
  by (induction s) (auto split: list.splits simp: split_not_Nil)

lemma strip_decomp:
  "\<exists>l r. t = l @ strip t @ r \<and> list_all isspace l \<and> list_all isspace r"
proof -
  let ?l = "takeWhile isspace t" and ?m = "dropWhile isspace t"
  let ?r = "rev (takeWhile isspace (rev ?m))"
  have "rev (takeWhile isspace (rev ?m) @ dropWhile isspace (rev ?m)) = rev (rev ?m)"
    by (simp only: takeWhile_dropWhile_id)
  then have "rev (dropWhile isspace (rev ?m)) @ ?r = ?m"
    by (simp only: rev_append rev_rev_ident)
  then have m: "?m = strip t @ ?r" by (simp add: strip_def)
  have "t = ?l @ ?m" by simp
  with m have "t = ?l @ strip t @ ?r" by simp
  moreover have "list_all isspace ?l" "list_all isspace ?r"
    by (auto simp: list_all_iff dest: set_takeWhileD)
  ultimately show ?thesis by blast
qed

lemma strip_ends:
  "strip t \<noteq> [] \<Longrightarrow> \<not> isspace (hd (strip t)) \<and> \<not> isspace (last (strip t))"
proof -
  assume ne: "strip t \<noteq> []"
  let ?m = "dropWhile isspace t"
  let ?k = "dropWhile isspace (rev ?m)"
  from ne have k: "?k \<noteq> []" by (simp add: strip_def)
  then have l: "\<not> isspace (hd ?k)" by (rule hd_dropWhile)
  have "last (strip t) = hd ?k" using k by (simp add: strip_def last_rev)
  with l have 1: "\<not> isspace (last (strip t))" by simp
  from k have "rev ?m \<noteq> []" by (metis dropWhile.simps(1))
  then have mne: "?m \<noteq> []" by simp
  then have hm: "\<not> isspace (hd ?m)" by (rule hd_dropWhile)
  have "?m = strip t @ rev (takeWhile isspace (rev ?m))"
    using takeWhile_dropWhile_id [of isspace "rev ?m"]
    by (metis rev_append rev_rev_ident strip_def)
  with ne have "hd ?m = hd (strip t)" by (metis hd_append2)
  with hm have 2: "\<not> isspace (hd (strip t))" by simp
  from 1 2 show ?thesis by simp
qed

lemma add_experience_calls:
  "snd (add_experience svc es doc lg) = snd (add_experience svc es doc' lg)"
proof (induction es arbitrary: doc doc' lg)
  case Nil
  show ?case by simp
next
  case (Cons e es)
  show ?case
    by (auto simp: Let_def split: option.splits prod.splits intro: Cons.IH)
qed

lemma add_experience_append:
  "add_experience svc (xs @ ys) doc lg =
     (case add_experience svc xs doc lg of
        (Inl err, lg') \<Rightarrow> (Inl err, lg')
      | (Inr doc', lg') \<Rightarrow> add_experience svc ys doc' lg')"
  by (induction xs arbitrary: doc lg) (simp_all add: Let_def split: option.split prod.split)

lemma generate_resume_layout:
  assumes e: "add_experience svc experience (resume_head name email phone linkedin github skills) lg
                = (Inr (resume_head name email phone linkedin github skills @ concat eb), lg')"
    and eb: "list_all (entry_block 2) eb"
    and edu: "list_all education_entry education"
    and proj: "list_all project_entry projects"
  shows "\<exists>document db pb.
           generate_resume svc name email phone linkedin github skills experience education projects lg
             = (Inr document, lg')
         \<and> sections document =
             [(Paragraph (Heading 1) name,
               [Paragraph Normal (header_info email phone linkedin github)]),
              (Paragraph (Heading 2) ''Skills'', bullets skills),
              (Paragraph (Heading 2) ''Experience'', concat eb),
              (Paragraph (Heading 2) ''Education'', concat db),
              (Paragraph (Heading 2) ''Projects'', concat pb)]
         \<and> length db = length education \<and> list_all (entry_block 2) db
         \<and> length pb = length projects \<and> list_all (entry_block 1) pb"
proof -
  let ?h = "resume_head name email phone linkedin github skills"
  let ?d1 = "(?h @ concat eb) @ [Paragraph (Heading 2) ''Education'']"
  from add_education_shape [OF edu, of ?d1] obtain db where
    db: "add_education education ?d1 = Inr (?d1 @ concat db)"
        "length db = length education" "list_all (entry_block 2) db"
    by blast
  let ?d2 = "(?d1 @ concat db) @ [Paragraph (Heading 2) ''Projects'']"
  from add_projects_shape [OF proj, of ?d2] obtain pb where
    pb: "add_projects projects ?d2 = Inr (?d2 @ concat pb)"
        "length pb = length projects" "list_all (entry_block 1) pb"
    by blast
  have g: "generate_resume svc name email phone linkedin github skills experience education
             projects lg = (Inr (?d2 @ concat pb), lg')"
    by (simp only: generate_resume_unfold e db pb prod.case sum.case)
  have "?d2 @ concat pb = ?h @ concat eb @ Paragraph (Heading 2) ''Education'' # concat db
          @ Paragraph (Heading 2) ''Projects'' # concat pb"
    by simp
  with sections_resume [OF eb db(3) pb(3), of name email phone linkedin github skills]
  have s: "sections (?d2 @ concat pb) =
             [(Paragraph (Heading 1) name,
               [Paragraph Normal (header_info email phone linkedin github)]),
              (Paragraph (Heading 2) ''Skills'', bullets skills),
              (Paragraph (Heading 2) ''Experience'', concat eb),
              (Paragraph (Heading 2) ''Education'', concat db),
              (Paragraph (Heading 2) ''Projects'', concat pb)]"
    by simp
  from g s db(2,3) pb(2,3) show ?thesis by blast
qed

lemma length_sub_blocks:
  "list_all (entry_block n) blocks \<Longrightarrow> length (sub_blocks (concat blocks)) = length blocks"
  by (simp add: sub_blocks_concat)

lemma entry_block_tl: "entry_block n b \<Longrightarrow> length b - Suc 0 = n"
  by (cases b) (simp_all add: entry_block_def)

lemma sub_blocks_sizes:
  "list_all (entry_block n) blocks \<Longrightarrow>
   list_all (\<lambda>(h, ps). length ps = n) (sub_blocks (concat blocks))"
  by (simp add: sub_blocks_concat list_all_iff entry_block_tl)

lemma add_experience_enriched:
  assumes f: "exp ''title'' = Some title" "exp ''company'' = Some company"
      "exp ''dates'' = Some dates" "exp ''description'' = Some d" and ne: "d \<noteq> []"
  shows "add_experience svc (exp # rest) doc lg =
           add_experience svc rest
             (doc @ [Paragraph (Heading 3) title, Paragraph Normal (company @ '' | '' @ dates),
                     Paragraph Normal (fst (summarize_experience svc d lg))])
             (snd (summarize_experience svc d lg))"
  using f ne by (simp add: add_paragraph_def split: prod.splits)

lemma summarize_experience_result:
  "(\<forall>prompt. svc lg prompt = Text t) \<longrightarrow> fst (summarize_experience svc d lg) = t"
  "(\<forall>prompt. svc lg prompt = Raises e) \<longrightarrow>
     fst (summarize_experience svc d lg) = ''Error summarizing experience: '' @ e"
  by (simp_all add: summarize_experience_def generate_content_def)


lemma length_b64_alphabet: "length b64_alphabet = 64"
  by (simp add: b64_alphabet_def)

lemma distinct_b64_alphabet: "distinct b64_alphabet"
  by (simp add: b64_alphabet_def)

lemma b64_index_char: "i < 64 \<Longrightarrow> b64_index (b64_char i) = Some i"
  unfolding b64_index_def b64_char_def
  using map_of_zip_nth [of b64_alphabet "[0..<64]" i]
  by (simp add: length_b64_alphabet distinct_b64_alphabet)

lemma b64_char_not_pad: "i < 64 \<Longrightarrow> b64_char i \<noteq> CHR ''=''"
proof -
  assume "i < 64"
  then have "b64_alphabet ! i \<in> set b64_alphabet" by (simp add: length_b64_alphabet)
  moreover have "CHR ''='' \<notin> set b64_alphabet" by (simp add: b64_alphabet_def)
  ultimately show ?thesis unfolding b64_char_def by metis
qed

lemma div_mod_digit:
  fixes k c m :: nat
  assumes "c < m"
  shows "(k * m + c) div m = k" and "(k * m + c) mod m = c"
  using assms by simp_all

lemma b64_quantum:
  fixes n :: nat
  shows "(n div 262144) * 262144 + (n div 4096 mod 64) * 4096 + (n div 64 mod 64) * 64 + n mod 64 = n"
proof -
  define q where "q = n div 64"
  define r where "r = q div 64"
  define t where "t = r div 64"
  define n0 where "n0 = n mod 64"
  define q0 where "q0 = q mod 64"
  define r0 where "r0 = r mod 64"
  have 1: "n = q * 64 + n0" unfolding q_def n0_def by simp
  have 2: "q = r * 64 + q0" unfolding r_def q0_def by simp
  have 3: "r = t * 64 + r0" unfolding t_def r0_def by simp
  have r: "n div 4096 = r" unfolding r_def q_def by (simp add: div_mult2_eq [symmetric])
  have t: "n div 262144 = t" unfolding t_def r_def q_def by (simp add: div_mult2_eq [symmetric])
  have "t * 262144 + r0 * 4096 + q0 * 64 + n0 = n" using 1 2 3 by linarith
  then show ?thesis unfolding r t by (simp only: r0_def q0_def n0_def q_def)
qed

lemma b64_three:
  fixes a b c :: nat
  assumes "b < 256" "c < 256"
  shows "(a * 65536 + b * 256 + c) div 65536 = a"
    and "(a * 65536 + b * 256 + c) div 256 mod 256 = b"
    and "(a * 65536 + b * 256 + c) mod 256 = c"
proof -
  define k where "k = a * 256 + b"
  have n: "a * 65536 + b * 256 + c = k * 256 + c" by (simp add: k_def)
  have k: "(k * 256 + c) div 256 = k" "(k * 256 + c) mod 256 = c"
    using div_mod_digit [of c 256 k] assms by simp_all
  have kb: "k div 256 = a" "k mod 256 = b"
    unfolding k_def using div_mod_digit [of b 256 a] assms by simp_all
  show "(a * 65536 + b * 256 + c) mod 256 = c" unfolding n by (rule k)
  show "(a * 65536 + b * 256 + c) div 256 mod 256 = b" unfolding n k by (rule kb)
  have "(k * 256 + c) div 65536 = (k * 256 + c) div 256 div 256"
    by (simp add: div_mult2_eq [symmetric])
  then show "(a * 65536 + b * 256 + c) div 65536 = a" unfolding n k kb .
qed

lemma b64_two:
  fixes a b :: nat
  assumes "b < 256"
  shows "(((a * 65536 + b * 256) div 262144) * 4096 + ((a * 65536 + b * 256) div 4096 mod 64) * 64
            + (a * 65536 + b * 256) div 64 mod 64) div 4 = a * 256 + b"
proof -
  define n where "n = a * 65536 + b * 256"
  define m where "m = n div 64"
  have m: "m = (a * 256 + b) * 4" unfolding m_def n_def by simp
  have d: "m div 4096 = n div 262144" "m div 64 = n div 4096"
    unfolding m_def by (simp_all add: div_mult2_eq [symmetric])
  have "(m div 4096) * 4096 + (m div 64 mod 64) * 64 + m mod 64 = m"
  proof -
    define q where "q = m div 64"
    have 1: "m = q * 64 + m mod 64" unfolding q_def by simp
    have 2: "q = (q div 64) * 64 + q mod 64" by simp
    have 3: "q div 64 = m div 4096" unfolding q_def by (simp add: div_mult2_eq [symmetric])
    define q1 where "q1 = q div 64"
    define q0 where "q0 = q mod 64"
    define m0 where "m0 = m mod 64"
    have "q1 * 4096 + q0 * 64 + m0 = m" using 1 2 unfolding q1_def q0_def m0_def by linarith
    then show ?thesis unfolding q1_def q0_def m0_def 3 unfolding q_def .
  qed
  then have "(n div 262144) * 4096 + (n div 4096 mod 64) * 64 + n div 64 mod 64 = m"
    unfolding d unfolding m_def .
  then show ?thesis unfolding n_def [symmetric] m by simp
qed

lemma b64_one:
  fixes a :: nat
  shows "((a * 65536 div 262144) * 64 + a * 65536 div 4096 mod 64) div 16 = a"
proof -
  define m where "m = a * 16"
  have 1: "a * 65536 div 4096 = m" "a * 65536 div 262144 = m div 64"
    unfolding m_def by simp_all
  have "(m div 64) * 64 + m mod 64 = m" by simp
  then show ?thesis unfolding 1 by (simp add: m_def)
qed

lemma experience_form_entries:
  "snd (fst (experience_form svc i rows lg)) =
     map (\<lambda>(title, company, dates, description).
            [''title'' \<mapsto> title, ''company'' \<mapsto> company, ''dates'' \<mapsto> dates,
             ''description'' \<mapsto> description]) rows"
  by (induction rows arbitrary: i lg) (auto simp: case_prod_unfold)

lemma education_form_entries:
  "snd (education_form i rows) =
     map (\<lambda>(degree, school, dates, description).
            [''degree'' \<mapsto> degree, ''school'' \<mapsto> school, ''dates'' \<mapsto> dates,
             ''description'' \<mapsto> description]) rows"
  by (induction rows arbitrary: i) (auto simp: case_prod_unfold)

lemma project_form_entries:
  "snd (project_form i rows) =
     map (\<lambda>(title, description). [''title'' \<mapsto> title, ''description'' \<mapsto> description]) rows"
  by (induction rows arbitrary: i) (auto simp: case_prod_unfold)

lemma experience_form_calls:
  "snd (experience_form svc i rows lg) =
     lg @ map (\<lambda>(title, company, dates, description).
                 ''Extract a list of relevant skills from the following job description:\<newline>\<newline>''
                   @ description) rows"
proof (induction rows arbitrary: i lg)
  case Nil
  show ?case by simp
next
  case (Cons row rows)
  obtain title company dates description where row: "row = (title, company, dates, description)"
    by (cases row)
  have s: "snd (generate_skills_suggestions svc description lg) =
             lg @ [''Extract a list of relevant skills from the following job description:\<newline>\<newline>''
                     @ description]"
    by (simp add: generate_skills_suggestions_def generate_content_def Let_def split: response.splits)
  show ?case
    unfolding row using Cons [of "i + 1" "snd (generate_skills_suggestions svc description lg)"] s
    by (simp add: case_prod_unfold)
qed

lemma experience_form_shown:
  "\<not> list_ex is_markdown (fst (fst (experience_form svc i rows lg)))"
  by (induction rows arbitrary: i lg) (auto simp: case_prod_unfold)

lemma education_form_shown: "\<not> list_ex is_markdown (fst (education_form i rows))"
  by (induction rows arbitrary: i) (auto simp: case_prod_unfold)

lemma project_form_shown: "\<not> list_ex is_markdown (fst (project_form i rows))"
  by (induction rows arbitrary: i) (auto simp: case_prod_unfold)

lemma form_entries_fields:
  "list_all experience_entry (snd (fst (experience_form svc i rows lg)))"
  "list_all education_entry (snd (education_form j rows))"
  "list_all project_entry (snd (project_form k rows'))"
  by (auto simp: experience_form_entries education_form_entries project_form_entries
      list_all_iff experience_entry_def education_entry_def project_entry_def has_fields_def)

lemma generate_resume_returns:
  assumes "list_all experience_entry experience"
    and "list_all education_entry education"
    and "list_all project_entry projects"
  shows "\<exists>document lg'.
           generate_resume svc name email phone linkedin github skills experience education projects lg
             = (Inr document, lg')"
proof -
  let ?h = "resume_head name email phone linkedin github skills"
  from add_experience_shape [OF assms(1), of svc ?h lg] obtain eb lg' where
    eb: "add_experience svc experience ?h lg = (Inr (?h @ concat eb), lg')"
        "list_all (entry_block 2) eb"
    by blast
  from generate_resume_layout [OF eb(1) eb(2) assms(2) assms(3)] show ?thesis by blast
qed

lemma main_unfold:
  "main svc lib name email phone linkedin github skills experience_rows education_rows
     project_rows job_description submitted lg =
     (if submitted
      then if name = [] \<or> email = [] \<or> skills = []
           then (form_shown svc experience_rows education_rows project_rows lg
                   @ [St_error ''Please fill in all required fields (Name, Email, Skills).''],
                 snd (experience_form svc 0 experience_rows lg))
           else (form_shown svc experience_rows education_rows project_rows lg
                   @ fst (process_submission svc lib name email phone linkedin github skills
                            (snd (fst (experience_form svc 0 experience_rows lg)))
                            (snd (education_form 0 education_rows))
                            (snd (project_form 0 project_rows)) job_description
                            (snd (experience_form svc 0 experience_rows lg))),
                 snd (process_submission svc lib name email phone linkedin github skills
                            (snd (fst (experience_form svc 0 experience_rows lg)))
                            (snd (education_form 0 education_rows))
                            (snd (project_form 0 project_rows)) job_description
                            (snd (experience_form svc 0 experience_rows lg))))
      else (form_shown svc experience_rows education_rows project_rows lg,
            snd (experience_form svc 0 experience_rows lg)))"
  by (simp add: main_def form_shown_def Let_def case_prod_unfold)

lemma form_shown_no_markdown:
  "\<not> list_ex is_markdown (form_shown svc experience_rows education_rows project_rows lg)"
  using experience_form_shown [of svc 0 experience_rows lg]
    education_form_shown [of 0 education_rows] project_form_shown [of 0 project_rows]
  by (simp add: form_shown_def)

lemma process_submission_markdown:
  assumes "list_all experience_entry experience"
    and "list_all education_entry education"
    and "list_all project_entry projects"
  shows "\<exists>document lg0 lg1.
           generate_resume svc name email phone linkedin github skills experience education
             projects lg0 = (Inr document, lg1)
         \<and> filter is_markdown
               (fst (process_submission svc lib name email phone linkedin github skills
                       experience education projects job_description lg)) =
             [St_markdown
                (''<a href='' @ [CHR 0x22]
                 @ ''data:application/vnd.openxmlformats-officedocument.wordprocessingml.document;base64,''
                 @ b64encode (docx_save lib document) @ [CHR 0x22] @ '' download='' @ [CHR 0x22]
                 @ name @ ''_resume.docx'' @ [CHR 0x22] @ ''>Download Resume (docx)</a>'')]"
proof -
  define r where "r =
     (if linkedin \<noteq> [] \<and> is_valid_linkedin_url lib linkedin
      then (case fetch_linkedin_data linkedin of
              (shown, None) \<Rightarrow> (shown, lg)
            | (shown, Some linkedin_data) \<Rightarrow>
                (case suggest_profile_improvements svc linkedin_data lg of
                   (profile_improvements, lg') \<Rightarrow>
                     (shown @ [St_success ''LinkedIn data fetched (with caution!).'',
                               St_header ''LinkedIn Profile Improvement Suggestions'',
                               St_write profile_improvements], lg')))
      else ([St_warning ''Invalid LinkedIn URL or LinkedIn integration skipped.''], lg))"
  have nm: "filter is_markdown (fst r) = []"
    unfolding r_def by (simp add: fetch_linkedin_data_def case_prod_unfold)
  from generate_resume_returns [OF assms, of svc name email phone linkedin github skills "snd r"]
  obtain document lg1 where
    g: "generate_resume svc name email phone linkedin github skills experience education
          projects (snd r) = (Inr document, lg1)"
    by blast
  have "filter is_markdown
               (fst (process_submission svc lib name email phone linkedin github skills
                       experience education projects job_description lg)) =
             [St_markdown
                (''<a href='' @ [CHR 0x22]
                 @ ''data:application/vnd.openxmlformats-officedocument.wordprocessingml.document;base64,''
                 @ b64encode (docx_save lib document) @ [CHR 0x22] @ '' download='' @ [CHR 0x22]
                 @ name @ ''_resume.docx'' @ [CHR 0x22] @ ''>Download Resume (docx)</a>'')]"
    unfolding process_submission_def r_def [symmetric] using g nm
    by (simp add: Let_def case_prod_unfold)
  with g show ?thesis by blast
qed

lemma experience_form_no_error:
  "\<not> list_ex is_error (fst (fst (experience_form svc i rows lg)))"
  by (induction rows arbitrary: i lg) (auto simp: case_prod_unfold)

lemma education_form_no_error: "\<not> list_ex is_error (fst (education_form i rows))"
  by (induction rows arbitrary: i) (auto simp: case_prod_unfold)

lemma project_form_no_error: "\<not> list_ex is_error (fst (project_form i rows))"
  by (induction rows arbitrary: i) (auto simp: case_prod_unfold)

lemma form_shown_no_error:
  "\<not> list_ex is_error (form_shown svc experience_rows education_rows project_rows lg)"
  using experience_form_no_error [of svc 0 experience_rows lg]
    education_form_no_error [of 0 education_rows] project_form_no_error [of 0 project_rows]
  by (simp add: form_shown_def)

lemma process_submission_no_error:
  "\<not> list_ex is_error
       (fst (process_submission svc lib name email phone linkedin github skills
               experience education projects job_description lg))"
proof -
  define r where "r =
     (if linkedin \<noteq> [] \<and> is_valid_linkedin_url lib linkedin
      then (case fetch_linkedin_data linkedin of
              (shown, None) \<Rightarrow> (shown, lg)
            | (shown, Some linkedin_data) \<Rightarrow>
                (case suggest_profile_improvements svc linkedin_data lg of
                   (profile_improvements, lg') \<Rightarrow>
                     (shown @ [St_success ''LinkedIn data fetched (with caution!).'',
                               St_header ''LinkedIn Profile Improvement Suggestions'',
                               St_write profile_improvements], lg')))
      else ([St_warning ''Invalid LinkedIn URL or LinkedIn integration skipped.''], lg))"
  have nm: "\<not> list_ex is_error (fst r)"
    unfolding r_def by (simp add: fetch_linkedin_data_def case_prod_unfold)
  show ?thesis
    unfolding process_submission_def r_def [symmetric] using nm
    by (simp add: Let_def case_prod_unfold split: sum.splits)
qed

text \<open>
  The calls that \<open>add_experience\<close> makes for entries that have all their fields: one
  \<open>summarize_experience\<close> prompt for each entry whose description is not empty, in the
  order of the entries, and none for an entry whose description is the empty string,
  which is rendered as an empty paragraph.
\<close>

lemma summarize_experience_calls:
  "snd (summarize_experience svc d lg) =
     lg @ [''Summarize the following job description in 3 concise bullet points, highlighting accomplishments and quantifiable results.  Focus on keywords that would be relevant to recruiters:\<newline>\<newline>'' @ d]"
  by (simp add: summarize_experience_def generate_content_def Let_def split: response.splits)

lemma add_experience_prompts:
  "list_all experience_entry es \<Longrightarrow>
   snd (add_experience svc es doc lg) =
     lg @ map (\<lambda>exp. ''Summarize the following job description in 3 concise bullet points, highlighting accomplishments and quantifiable results.  Focus on keywords that would be relevant to recruiters:\<newline>\<newline>''
                      @ the (exp ''description''))
            (filter (\<lambda>exp. exp ''description'' \<noteq> Some []) es)"
proof (induction es arbitrary: doc lg)
  case Nil
  show ?case by simp
next
  case (Cons e es)
  from Cons.prems obtain t c dts d where f: "e ''title'' = Some t" "e ''company'' = Some c"
      "e ''dates'' = Some dts" "e ''description'' = Some d"
    by (auto simp: experience_entry_def has_fields_def)
  from Cons.prems have es: "list_all experience_entry es" by simp
  show ?case
  proof (cases "d = []")
    case True
    with f Cons.IH [OF es] show ?thesis by simp
  next
    case False
    with f Cons.IH [OF es] show ?thesis
      by (simp add: case_prod_unfold summarize_experience_calls)
  qed
qed

lemma empty_description_not_enriched:
  "generate_resume svc ''Ada'' ''ada@example.org'' ''555'' ''ada'' ''ada'' ''Python''
     [[''title'' \<mapsto> ''Engineer'', ''company'' \<mapsto> ''Acme'', ''dates'' \<mapsto> ''2020'',
       ''description'' \<mapsto> '''']] [] [] []
   = (Inr [Paragraph (Heading 1) ''Ada'',
           Paragraph Normal ''ada@example.org | 555 | [LinkedIn](ada) | [GitHub](ada)'',
           Paragraph (Heading 2) ''Skills'', Paragraph ListBullet ''Python'',
           Paragraph (Heading 2) ''Experience'', Paragraph (Heading 3) ''Engineer'',
           Paragraph Normal ''Acme | 2020'', Paragraph Normal '''',
           Paragraph (Heading 2) ''Education'', Paragraph (Heading 2) ''Projects''], [])"
  by (simp add: generate_resume_unfold resume_head_def header_info_def bullets_def
      strip_def isspace_def add_paragraph_def)

section \<open>Enrichment failures\<close>

text \<open>
  C3.  When the text-generation call raises, whatever the payload, every function of
  the enrichment client returns normally: its result is its own error message followed
  by the text of the exception.  The result is a string as on success, and a service
  that answers with that very string gives the same return value, so a caller cannot
  tell the two apart from what is returned.
\<close>

theorem enrichment_failure_is_returned_as_text:
  assumes "\<And>prompt. svc lg prompt = Raises e"
  shows "fst (summarize_experience svc d lg) = ''Error summarizing experience: '' @ e
    \<and> fst (generate_skills_suggestions svc d lg) = ''Error generating skills: '' @ e
    \<and> fst (generate_cover_letter svc n d lg) = ''Error generating cover letter: '' @ e
    \<and> fst (suggest_improvements svc d sk lg) = ''Error generating suggestions: '' @ e
    \<and> fst (extract_skills_qualifications svc d lg) =
           ''Error extracting skills and qualifications: '' @ e
    \<and> fst (highlight_missing_skills svc sk d lg) = ''Error highlighting missing skills: '' @ e
    \<and> fst (suggest_profile_improvements svc d lg) =
           ''Error suggesting profile improvements: '' @ e
    \<and> fst (generate_interview_questions svc d lg) =
           ''Error generating interview questions: '' @ e
    \<and> fst (analyze_strengths_weaknesses svc d lg) =
           ''Error analyzing strengths and weaknesses: '' @ e
    \<and> fst (summarize_experience (\<lambda>_ _. Text (''Error summarizing experience: '' @ e)) d lg)
           = fst (summarize_experience svc d lg)"
  using assms
  by (simp add: summarize_experience_def generate_skills_suggestions_def
      generate_cover_letter_def suggest_improvements_def extract_skills_qualifications_def
      highlight_missing_skills_def suggest_profile_improvements_def
      generate_interview_questions_def analyze_strengths_weaknesses_def generate_content_def)

theorem enrichment_failure_is_returned_as_text_witness:
  "fst (summarize_experience (\<lambda>_ _. Raises ''quota exceeded'') ''Built models.'' [])
     = ''Error summarizing experience: quota exceeded''
   \<and> fst (generate_cover_letter (\<lambda>_ _. Raises ''quota exceeded'') ''Ada'' ''Built models.'' [])
     = ''Error generating cover letter: quota exceeded''"
  using enrichment_failure_is_returned_as_text
          [of "\<lambda>_ _. Raises ''quota exceeded''" "[]" "''quota exceeded''" "''Built models.''"
              "''Ada''"]
  by simp

section \<open>The sections of the document\<close>

text \<open>
  C1.  For every name, contact data and skills string, and all lists of experience,
  education and project entries (each entry with the fields of the data model),
  \<open>generate_resume\<close> returns a document whose sections are, in this order, the header
  (headed by the name), Skills, Experience, Education and Projects, whatever the sizes of
  the lists; the Experience, Education and Projects sections have one sub-block per
  entry supplied, a heading followed by two paragraphs (one for a project).
\<close>

theorem generate_resume_section_order:
  assumes "list_all experience_entry experience"
    and "list_all education_entry education"
    and "list_all project_entry projects"
  shows "\<exists>document lg'.
           generate_resume svc name email phone linkedin github skills experience education projects lg
             = (Inr document, lg')
         \<and> map fst (sections document) =
             [Paragraph (Heading 1) name, Paragraph (Heading 2) ''Skills'',
              Paragraph (Heading 2) ''Experience'', Paragraph (Heading 2) ''Education'',
              Paragraph (Heading 2) ''Projects'']
         \<and> length (sub_blocks (snd (sections document ! 2))) = length experience
         \<and> length (sub_blocks (snd (sections document ! 3))) = length education
         \<and> length (sub_blocks (snd (sections document ! 4))) = length projects
         \<and> list_all (\<lambda>(h, ps). length ps = 2) (sub_blocks (snd (sections document ! 2)))
         \<and> list_all (\<lambda>(h, ps). length ps = 2) (sub_blocks (snd (sections document ! 3)))
         \<and> list_all (\<lambda>(h, ps). length ps = 1) (sub_blocks (snd (sections document ! 4)))"
proof -
  let ?h = "resume_head name email phone linkedin github skills"
  from add_experience_shape [OF assms(1), of svc ?h lg] obtain eb lg' where
    eb: "add_experience svc experience ?h lg = (Inr (?h @ concat eb), lg')"
        "length eb = length experience" "list_all (entry_block 2) eb"
    by blast
  from generate_resume_layout [OF eb(1) eb(3) assms(2) assms(3)] obtain document db pb where
    d: "generate_resume svc name email phone linkedin github skills experience education projects lg
          = (Inr document, lg')"
       "sections document =
             [(Paragraph (Heading 1) name,
               [Paragraph Normal (header_info email phone linkedin github)]),
              (Paragraph (Heading 2) ''Skills'', bullets skills),
              (Paragraph (Heading 2) ''Experience'', concat eb),
              (Paragraph (Heading 2) ''Education'', concat db),
              (Paragraph (Heading 2) ''Projects'', concat pb)]"
       "length db = length education" "list_all (entry_block 2) db"
       "length pb = length projects" "list_all (entry_block 1) pb"
    by blast
  have "length (sub_blocks (concat eb)) = length experience"
       "length (sub_blocks (concat db)) = length education"
       "length (sub_blocks (concat pb)) = length projects"
    using eb d by (simp_all add: length_sub_blocks)
  moreover note sub_blocks_sizes [OF eb(3)] sub_blocks_sizes [OF d(4)] sub_blocks_sizes [OF d(6)]
  ultimately show ?thesis using d(1,2)
    by (intro exI [of _ document] exI [of _ lg']) (simp add: numeral_3_eq_3)
qed

theorem generate_resume_section_order_witness:
  "list_all experience_entry
     [[''title'' \<mapsto> ''Engineer'', ''company'' \<mapsto> ''Acme'', ''dates'' \<mapsto> ''2020'',
       ''description'' \<mapsto> ''Built models.'']]
   \<and> (\<exists>document lg'.
         generate_resume (\<lambda>_ _. Text ''OK'') ''Ada'' ''ada@example.org'' ''555'' ''ada'' ''ada''
           ''Python, SQL''
           [[''title'' \<mapsto> ''Engineer'', ''company'' \<mapsto> ''Acme'', ''dates'' \<mapsto> ''2020'',
             ''description'' \<mapsto> ''Built models.'']]
           [[''degree'' \<mapsto> ''BSc'', ''school'' \<mapsto> ''MIT'', ''dates'' \<mapsto> ''2016'',
             ''description'' \<mapsto> ''Maths'']]
           [] [] = (Inr document, lg')
       \<and> map fst (sections document) =
             [Paragraph (Heading 1) ''Ada'', Paragraph (Heading 2) ''Skills'',
              Paragraph (Heading 2) ''Experience'', Paragraph (Heading 2) ''Education'',
              Paragraph (Heading 2) ''Projects'']
       \<and> length (sub_blocks (snd (sections document ! 2))) = 1
       \<and> length (sub_blocks (snd (sections document ! 3))) = 1
       \<and> length (sub_blocks (snd (sections document ! 4))) = 0
       \<and> list_all (\<lambda>(h, ps). length ps = 2) (sub_blocks (snd (sections document ! 2)))
       \<and> list_all (\<lambda>(h, ps). length ps = 2) (sub_blocks (snd (sections document ! 3)))
       \<and> list_all (\<lambda>(h, ps). length ps = 1) (sub_blocks (snd (sections document ! 4))))"
proof -
  let ?e = "[[''title'' \<mapsto> ''Engineer'', ''company'' \<mapsto> ''Acme'', ''dates'' \<mapsto> ''2020'',
             ''description'' \<mapsto> ''Built models.'']]"
  let ?d = "[[''degree'' \<mapsto> ''BSc'', ''school'' \<mapsto> ''MIT'', ''dates'' \<mapsto> ''2016'',
             ''description'' \<mapsto> ''Maths'']]"
  have e: "list_all experience_entry ?e" by (simp add: experience_entry_def has_fields_def)
  have d: "list_all education_entry ?d" by (simp add: education_entry_def has_fields_def)
  have p: "list_all project_entry []" by simp
  show ?thesis
    using e generate_resume_section_order [OF e d p, of "\<lambda>_ _. Text ''OK''" "''Ada''"
      "''ada@example.org''" "''555''" "''ada''" "''ada''" "''Python, SQL''" "[]"]
    by simp
qed

text \<open>
  C6.  With no experience, education and project entries the document is the header
  (name and contact line), the Skills heading with its bullets, and the three headings
  Experience, Education and Projects with nothing under them: these three sections
  have no paragraph and no sub-block.  No enrichment call is made.
\<close>

theorem generate_resume_no_entries:
  "generate_resume svc name email phone linkedin github skills [] [] [] lg =
     (Inr ([Paragraph (Heading 1) name,
            Paragraph Normal (email @ '' | '' @ phone @ '' | [LinkedIn]('' @ linkedin
                                @ '') | [GitHub]('' @ github @ '')''),
            Paragraph (Heading 2) ''Skills'']
           @ map (\<lambda>skill. Paragraph ListBullet (strip skill)) (split CHR '','' skills)
           @ [Paragraph (Heading 2) ''Experience'', Paragraph (Heading 2) ''Education'',
              Paragraph (Heading 2) ''Projects'']), lg)
   \<and> (\<exists>document. fst (generate_resume svc name email phone linkedin github skills [] [] [] lg)
                     = Inr document
        \<and> map fst (sections document) =
             [Paragraph (Heading 1) name, Paragraph (Heading 2) ''Skills'',
              Paragraph (Heading 2) ''Experience'', Paragraph (Heading 2) ''Education'',
              Paragraph (Heading 2) ''Projects'']
        \<and> snd (sections document ! 2) = [] \<and> sub_blocks (snd (sections document ! 2)) = []
        \<and> snd (sections document ! 3) = [] \<and> sub_blocks (snd (sections document ! 3)) = []
        \<and> snd (sections document ! 4) = [] \<and> sub_blocks (snd (sections document ! 4)) = [])"
proof -
  let ?h = "resume_head name email phone linkedin github skills"
  have e: "add_experience svc [] ?h lg = (Inr (?h @ concat []), lg)" by simp
  from generate_resume_layout [OF e, of "[]" "[]"] obtain document db pb where
    d: "generate_resume svc name email phone linkedin github skills [] [] [] lg = (Inr document, lg)"
       "sections document =
             [(Paragraph (Heading 1) name,
               [Paragraph Normal (header_info email phone linkedin github)]),
              (Paragraph (Heading 2) ''Skills'', bullets skills),
              (Paragraph (Heading 2) ''Experience'', concat []),
              (Paragraph (Heading 2) ''Education'', concat db),
              (Paragraph (Heading 2) ''Projects'', concat pb)]"
       "length db = length ([] :: entry list)" "length pb = length ([] :: entry list)"
    by auto
  from d(3,4) have z: "db = []" "pb = []" by simp_all
  have 1: "generate_resume svc name email phone linkedin github skills [] [] [] lg =
     (Inr ([Paragraph (Heading 1) name,
            Paragraph Normal (email @ '' | '' @ phone @ '' | [LinkedIn]('' @ linkedin
                                @ '') | [GitHub]('' @ github @ '')''),
            Paragraph (Heading 2) ''Skills'']
           @ map (\<lambda>skill. Paragraph ListBullet (strip skill)) (split CHR '','' skills)
           @ [Paragraph (Heading 2) ''Experience'', Paragraph (Heading 2) ''Education'',
              Paragraph (Heading 2) ''Projects'']), lg)"
    by (simp add: generate_resume_unfold resume_head_def header_info_def bullets_def)
  have 2: "\<exists>document. fst (generate_resume svc name email phone linkedin github skills [] [] [] lg)
                     = Inr document
        \<and> map fst (sections document) =
             [Paragraph (Heading 1) name, Paragraph (Heading 2) ''Skills'',
              Paragraph (Heading 2) ''Experience'', Paragraph (Heading 2) ''Education'',
              Paragraph (Heading 2) ''Projects'']
        \<and> snd (sections document ! 2) = [] \<and> sub_blocks (snd (sections document ! 2)) = []
        \<and> snd (sections document ! 3) = [] \<and> sub_blocks (snd (sections document ! 3)) = []
        \<and> snd (sections document ! 4) = [] \<and> sub_blocks (snd (sections document ! 4)) = []"
    using d(1,2) z by (intro exI [of _ document]) (simp add: numeral_3_eq_3 sub_blocks_def)
  from 1 2 show ?thesis by (rule conjI)
qed

section \<open>The Skills section\<close>

text \<open>
  C4.  The Skills section holds one bullet paragraph for each piece of the skills string
  cut at its commas, in the order of the string, each piece with the white space at its
  two ends removed.  The pieces are those of \<open>split\<close>: joined with commas they give the
  string back, none contains a comma, and there is one more piece than there are commas,
  so empty pieces are kept.  \<open>strip\<close> removes white space at the two ends only and leaves
  no white space there.  \<open>A, B,C\<close> gives the bullets \<open>A\<close>, \<open>B\<close>, \<open>C\<close>.
\<close>

theorem skills_bullets:
  assumes "list_all experience_entry experience"
    and "list_all education_entry education"
    and "list_all project_entry projects"
  shows "\<exists>document lg'.
           generate_resume svc name email phone linkedin github skills experience education projects lg
             = (Inr document, lg')
         \<and> fst (sections document ! 1) = Paragraph (Heading 2) ''Skills''
         \<and> snd (sections document ! 1) =
               map (\<lambda>token. Paragraph ListBullet (strip token)) (split CHR '','' skills)
         \<and> join CHR '','' (split CHR '','' skills) = skills
         \<and> (\<forall>token \<in> set (split CHR '','' skills). CHR '','' \<notin> set token)
         \<and> length (split CHR '','' skills) = Suc (count_list skills CHR '','')
         \<and> (\<forall>token \<in> set (split CHR '','' skills).
                (\<exists>l r. token = l @ strip token @ r \<and> list_all isspace l \<and> list_all isspace r)
              \<and> (strip token \<noteq> [] \<longrightarrow>
                    \<not> isspace (hd (strip token)) \<and> \<not> isspace (last (strip token))))
         \<and> map strip (split CHR '','' ''A, B,C'') = [''A'', ''B'', ''C'']
         \<and> map strip (split CHR '','' ''A,, B,'') = [''A'', '''', ''B'', '''']"
proof -
  let ?h = "resume_head name email phone linkedin github skills"
  from add_experience_shape [OF assms(1), of svc ?h lg] obtain eb lg' where
    eb: "add_experience svc experience ?h lg = (Inr (?h @ concat eb), lg')"
        "list_all (entry_block 2) eb"
    by blast
  from generate_resume_layout [OF eb(1) eb(2) assms(2) assms(3)] obtain document db pb where
    d: "generate_resume svc name email phone linkedin github skills experience education projects lg
          = (Inr document, lg')"
       "sections document =
             [(Paragraph (Heading 1) name,
               [Paragraph Normal (header_info email phone linkedin github)]),
              (Paragraph (Heading 2) ''Skills'', bullets skills),
              (Paragraph (Heading 2) ''Experience'', concat eb),
              (Paragraph (Heading 2) ''Education'', concat db),
              (Paragraph (Heading 2) ''Projects'', concat pb)]"
    by blast
  have s: "fst (sections document ! 1) = Paragraph (Heading 2) ''Skills''"
          "snd (sections document ! 1) =
               map (\<lambda>token. Paragraph ListBullet (strip token)) (split CHR '','' skills)"
    using d(2) by (simp_all add: bullets_def)
  have x1: "map strip (split CHR '','' ''A, B,C'') = [''A'', ''B'', ''C'']"
    by (simp add: strip_def isspace_def)
  have x2: "map strip (split CHR '','' ''A,, B,'') = [''A'', '''', ''B'', '''']"
    by (simp add: strip_def isspace_def)
  have sp: "\<forall>token \<in> set (split CHR '','' skills). CHR '','' \<notin> set token"
    using split_no_sep by blast
  have st: "\<forall>token \<in> set (split CHR '','' skills).
                (\<exists>l r. token = l @ strip token @ r \<and> list_all isspace l \<and> list_all isspace r)
              \<and> (strip token \<noteq> [] \<longrightarrow>
                    \<not> isspace (hd (strip token)) \<and> \<not> isspace (last (strip token)))"
    using strip_decomp strip_ends by blast
  show ?thesis
    using d(1) s join_split [of "CHR '',''" skills] sp length_split [of "CHR '',''" skills] st x1 x2
    by (intro exI [of _ document] exI [of _ lg'] conjI)
qed

theorem skills_bullets_witness:
  "list_all experience_entry
     [[''title'' \<mapsto> ''Engineer'', ''company'' \<mapsto> ''Acme'', ''dates'' \<mapsto> ''2020'',
       ''description'' \<mapsto> '''']]
   \<and> (\<exists>document lg'.
         generate_resume (\<lambda>_ _. Text ''OK'') ''Ada'' ''ada@example.org'' ''555'' ''ada'' ''ada''
           '' A ,,B''
           [[''title'' \<mapsto> ''Engineer'', ''company'' \<mapsto> ''Acme'', ''dates'' \<mapsto> ''2020'',
             ''description'' \<mapsto> '''']]
           [] [] [] = (Inr document, lg')
       \<and> snd (sections document ! 1) =
           [Paragraph ListBullet ''A'', Paragraph ListBullet '''', Paragraph ListBullet ''B''])"
proof -
  let ?e = "[[''title'' \<mapsto> ''Engineer'', ''company'' \<mapsto> ''Acme'', ''dates'' \<mapsto> ''2020'',
             ''description'' \<mapsto> '''']]"
  have e: "list_all experience_entry ?e" by (simp add: experience_entry_def has_fields_def)
  have d: "list_all education_entry []" and p: "list_all project_entry []" by simp_all
  have s: "map (\<lambda>token. Paragraph ListBullet (strip token)) (split CHR '','' '' A ,,B'')
             = [Paragraph ListBullet ''A'', Paragraph ListBullet '''', Paragraph ListBullet ''B'']"
    by (simp add: strip_def isspace_def)
  from skills_bullets [OF e d p, of "\<lambda>_ _. Text ''OK''" "''Ada''"
      "''ada@example.org''" "''555''" "''ada''" "''ada''" "'' A ,,B''" "[]"]
  obtain document lg' where
    "generate_resume (\<lambda>_ _. Text ''OK'') ''Ada'' ''ada@example.org'' ''555'' ''ada'' ''ada''
           '' A ,,B'' ?e [] [] [] = (Inr document, lg')"
    "snd (sections document ! 1) =
       map (\<lambda>token. Paragraph ListBullet (strip token)) (split CHR '','' '' A ,,B'')"
    by (elim exE conjE) (rule that, assumption+)
  with e s show ?thesis by (intro conjI exI [of _ document] exI [of _ lg']) simp_all
qed


section \<open>Enriched descriptions\<close>

text \<open>
  C2.  For an experience entry whose description is not empty, the description
  paragraph of its sub-block is exactly the text \<open>summarize_experience\<close> returned for
  that description, called after the calls made for the entries before it: the text of
  the service when the call succeeded, the error message followed by the text of the
  exception when it raised.  In both cases the document is returned with its five section
  headings.
\<close>

theorem enriched_description_verbatim:
  assumes before: "list_all experience_entry before"
    and after: "list_all experience_entry after"
    and edu: "list_all education_entry education"
    and proj: "list_all project_entry projects"
    and f: "exp ''title'' = Some title" "exp ''company'' = Some company"
      "exp ''dates'' = Some dates" "exp ''description'' = Some d"
    and ne: "d \<noteq> []"
    and lg1: "lg1 = snd (add_experience svc before Document lg)"
  shows "\<exists>document lg'.
           generate_resume svc name email phone linkedin github skills (before @ exp # after)
             education projects lg = (Inr document, lg')
         \<and> map fst (sections document) =
             [Paragraph (Heading 1) name, Paragraph (Heading 2) ''Skills'',
              Paragraph (Heading 2) ''Experience'', Paragraph (Heading 2) ''Education'',
              Paragraph (Heading 2) ''Projects'']
         \<and> sub_blocks (snd (sections document ! 2)) ! length before =
             (Paragraph (Heading 3) title,
              [Paragraph Normal (company @ '' | '' @ dates),
               Paragraph Normal (fst (summarize_experience svc d lg1))])
         \<and> ((\<forall>prompt. svc lg1 prompt = Text t) \<longrightarrow> fst (summarize_experience svc d lg1) = t)
         \<and> ((\<forall>prompt. svc lg1 prompt = Raises e) \<longrightarrow>
               fst (summarize_experience svc d lg1) = ''Error summarizing experience: '' @ e)"
proof -
  let ?h = "resume_head name email phone linkedin github skills"
  let ?b = "[Paragraph (Heading 3) title, Paragraph Normal (company @ '' | '' @ dates),
             Paragraph Normal (fst (summarize_experience svc d lg1))]"
  from add_experience_shape [OF before, of svc ?h lg] obtain b1 lgb where
    b1: "add_experience svc before ?h lg = (Inr (?h @ concat b1), lgb)"
        "length b1 = length before" "list_all (entry_block 2) b1"
    by blast
  have "lgb = snd (add_experience svc before ?h lg)" using b1(1) by simp
  also have "\<dots> = lg1" unfolding lg1 by (rule add_experience_calls)
  finally have lgb: "lgb = lg1" .
  let ?d1 = "(?h @ concat b1) @ ?b"
  from add_experience_shape [OF after, of svc ?d1 "snd (summarize_experience svc d lg1)"]
  obtain b2 lg' where
    b2: "add_experience svc after ?d1 (snd (summarize_experience svc d lg1))
           = (Inr (?d1 @ concat b2), lg')"
        "list_all (entry_block 2) b2"
    by blast
  have step: "add_experience svc (exp # after) (?h @ concat b1) lg1 = (Inr (?d1 @ concat b2), lg')"
    using add_experience_enriched [OF f ne, of svc after "?h @ concat b1" lg1] b2(1) by simp
  have e: "add_experience svc (before @ exp # after) ?h lg
             = (Inr (?h @ concat (b1 @ ?b # b2)), lg')"
    using b1(1) lgb step by (simp add: add_experience_append)
  have bb: "entry_block 2 ?b" by (simp add: entry_block_def)
  have eb: "list_all (entry_block 2) (b1 @ ?b # b2)" using b1(3) b2(2) bb by simp
  from generate_resume_layout [OF e eb edu proj] obtain document db pb where
    doc: "generate_resume svc name email phone linkedin github skills (before @ exp # after)
            education projects lg = (Inr document, lg')"
       "sections document =
             [(Paragraph (Heading 1) name,
               [Paragraph Normal (header_info email phone linkedin github)]),
              (Paragraph (Heading 2) ''Skills'', bullets skills),
              (Paragraph (Heading 2) ''Experience'', concat (b1 @ ?b # b2)),
              (Paragraph (Heading 2) ''Education'', concat db),
              (Paragraph (Heading 2) ''Projects'', concat pb)]"
    by blast
  have "sub_blocks (concat (b1 @ ?b # b2)) ! length before
          = map (\<lambda>b. (hd b, tl b)) (b1 @ ?b # b2) ! length b1"
    using sub_blocks_concat [OF eb] b1(2) by simp
  also have "\<dots> = (hd ?b, tl ?b)" by (simp add: nth_append)
  finally have blk: "sub_blocks (concat (b1 @ ?b # b2)) ! length before =
             (Paragraph (Heading 3) title,
              [Paragraph Normal (company @ '' | '' @ dates),
               Paragraph Normal (fst (summarize_experience svc d lg1))])"
    by simp
  have hd: "map fst (sections document) =
             [Paragraph (Heading 1) name, Paragraph (Heading 2) ''Skills'',
              Paragraph (Heading 2) ''Experience'', Paragraph (Heading 2) ''Education'',
              Paragraph (Heading 2) ''Projects'']"
    using doc(2) by simp
  have b: "sub_blocks (snd (sections document ! 2)) ! length before =
             (Paragraph (Heading 3) title,
              [Paragraph Normal (company @ '' | '' @ dates),
               Paragraph Normal (fst (summarize_experience svc d lg1))])"
    using doc(2) blk by simp
  show ?thesis
    using doc(1) hd b summarize_experience_result(1) [of svc lg1 t d]
      summarize_experience_result(2) [of svc lg1 e d]
    by (intro exI [of _ document] exI [of _ lg'] conjI)
qed

theorem enriched_description_verbatim_witness:
  "(\<exists>document lg'.
      generate_resume (\<lambda>_ _. Text ''OK'') ''Ada'' ''ada@example.org'' ''555'' ''ada'' ''ada''
        ''Python, SQL''
        [[''title'' \<mapsto> ''Engineer'', ''company'' \<mapsto> ''Acme'', ''dates'' \<mapsto> ''2020'',
          ''description'' \<mapsto> ''Built models.'']]
        [] [] [] = (Inr document, lg')
    \<and> map fst (sections document) =
             [Paragraph (Heading 1) ''Ada'', Paragraph (Heading 2) ''Skills'',
              Paragraph (Heading 2) ''Experience'', Paragraph (Heading 2) ''Education'',
              Paragraph (Heading 2) ''Projects'']
    \<and> sub_blocks (snd (sections document ! 2)) ! 0 =
        (Paragraph (Heading 3) ''Engineer'',
         [Paragraph Normal ''Acme | 2020'', Paragraph Normal ''OK'']))
   \<and> (\<exists>document lg'.
      generate_resume (\<lambda>_ _. Raises ''quota exceeded'') ''Ada'' ''ada@example.org'' ''555''
        ''ada'' ''ada'' ''Python, SQL''
        [[''title'' \<mapsto> ''Engineer'', ''company'' \<mapsto> ''Acme'', ''dates'' \<mapsto> ''2020'',
          ''description'' \<mapsto> ''Built models.'']]
        [] [] [] = (Inr document, lg')
    \<and> map fst (sections document) =
             [Paragraph (Heading 1) ''Ada'', Paragraph (Heading 2) ''Skills'',
              Paragraph (Heading 2) ''Experience'', Paragraph (Heading 2) ''Education'',
              Paragraph (Heading 2) ''Projects'']
    \<and> sub_blocks (snd (sections document ! 2)) ! 0 =
        (Paragraph (Heading 3) ''Engineer'',
         [Paragraph Normal ''Acme | 2020'',
          Paragraph Normal ''Error summarizing experience: quota exceeded'']))"
proof -
  let ?x = "[''title'' \<mapsto> ''Engineer'', ''company'' \<mapsto> ''Acme'', ''dates'' \<mapsto> ''2020'',
             ''description'' \<mapsto> ''Built models.'']"
  have n: "list_all experience_entry []" "list_all education_entry []" "list_all project_entry []"
    by simp_all
  have f: "?x ''title'' = Some ''Engineer''" "?x ''company'' = Some ''Acme''"
    "?x ''dates'' = Some ''2020''" "?x ''description'' = Some ''Built models.''"
    by simp_all
  have ne: "''Built models.'' \<noteq> []" by simp
  have l: "[] = snd (add_experience svc [] Document [])" for svc by simp
  show ?thesis
    using enriched_description_verbatim [where exp = ?x and before = "[]" and after = "[]"
            and svc = "\<lambda>_ _. Text ''OK''" and name = "''Ada''" and email = "''ada@example.org''"
            and phone = "''555''" and linkedin = "''ada''" and github = "''ada''"
            and skills = "''Python, SQL''" and t = "''OK''" and e = "''none''" and lg = "[]",
            OF n(1) n(1) n(2) n(3) f ne l]
          enriched_description_verbatim [where exp = ?x and before = "[]" and after = "[]"
            and svc = "\<lambda>_ _. Raises ''quota exceeded''" and name = "''Ada''"
            and email = "''ada@example.org''"
            and phone = "''555''" and linkedin = "''ada''" and github = "''ada''"
            and skills = "''Python, SQL''" and t = "''none''" and e = "''quota exceeded''"
            and lg = "[]",
            OF n(1) n(1) n(2) n(3) f ne l]
    by (simp add: summarize_experience_def generate_content_def)
qed

section \<open>An entry without a description\<close>

text \<open>
  C10.  An experience entry that has no \<open>description\<close> field: the test
  \<open>'description' in exp and exp['description']\<close> fails and no enrichment call is made,
  but the other branch reads \<open>exp['description']\<close>, which raises \<open>KeyError\<close>: no
  description paragraph is rendered and no document is returned.  (For an entry whose
  description is the empty string the branch renders the empty paragraph, see
  \<open>empty_description_not_enriched\<close> and \<open>add_experience_prompts\<close>.)
\<close>

theorem missing_description_raises:
  "generate_resume svc ''Ada'' ''ada@example.org'' ''555'' ''ada'' ''ada'' ''Python''
     [[''title'' \<mapsto> ''Engineer'', ''company'' \<mapsto> ''Acme'', ''dates'' \<mapsto> ''2020'']] [] [] []
   = (Inl (KeyError ''description''), [])"
  by (simp add: generate_resume_unfold)

section \<open>The download link\<close>

text \<open>
  C5.  For every byte buffer, and so for every serialized document, decoding the base64
  text that the exporter puts into the link gives back the buffer, byte for byte.
\<close>

theorem b64_roundtrip: "b64decode (b64encode buffer) = Some buffer"
proof (induction buffer rule: b64encode.induct)
  case 1
  show ?case by simp
next
  case (2 a)
  define x where "x = unat a"
  define s0 where "s0 = x * 65536 div 262144"
  define s1 where "s1 = x * 65536 div 4096 mod 64"
  have a: "x < 256" unfolding x_def using unsigned_less [of a] by simp
  have s: "s0 < 64" "s1 < 64" unfolding s0_def s1_def using a by simp_all
  have w: "(word_of_nat x :: byte) = a" unfolding x_def by simp
  have e: "b64encode [a] = [b64_char s0, b64_char s1, CHR ''='', CHR ''='']"
    by (simp add: Let_def s0_def s1_def x_def)
  have v: "(s0 * 64 + s1) div 16 = x" unfolding s0_def s1_def by (rule b64_one)
  have "b64decode (b64encode [a]) = Some [word_of_nat ((s0 * 64 + s1) div 16)]"
    unfolding e using s by (simp add: b64_index_char)
  then show ?case unfolding v w .
next
  case (3 a b)
  define x where "x = unat a"
  define y where "y = unat b"
  define n where "n = x * 65536 + y * 256"
  define s0 where "s0 = n div 262144"
  define s1 where "s1 = n div 4096 mod 64"
  define s2 where "s2 = n div 64 mod 64"
  have a: "x < 256" "y < 256"
    unfolding x_def y_def using unsigned_less [of a] unsigned_less [of b] by simp_all
  have s: "s0 < 64" "s1 < 64" "s2 < 64" unfolding s0_def s1_def s2_def n_def using a by simp_all
  have w: "(word_of_nat x :: byte) = a" "(word_of_nat y :: byte) = b"
    unfolding x_def y_def by simp_all
  have e: "b64encode [a, b] = [b64_char s0, b64_char s1, b64_char s2, CHR ''='']"
    by (simp add: Let_def s0_def s1_def s2_def n_def x_def y_def)
  have v: "(s0 * 4096 + s1 * 64 + s2) div 4 = x * 256 + y"
    unfolding s0_def s1_def s2_def n_def by (rule b64_two [OF a(2)])
  have d: "(x * 256 + y) div 256 = x" "(x * 256 + y) mod 256 = y"
    using div_mod_digit [of y 256 x] a by simp_all
  have "b64decode (b64encode [a, b]) =
          Some [word_of_nat ((s0 * 4096 + s1 * 64 + s2) div 4 div 256),
                word_of_nat ((s0 * 4096 + s1 * 64 + s2) div 4 mod 256)]"
    unfolding e using s by (simp add: Let_def b64_index_char b64_char_not_pad)
  then show ?case unfolding v d w .
next
  case (4 a b c rest)
  define x where "x = unat a"
  define y where "y = unat b"
  define z where "z = unat c"
  define n where "n = x * 65536 + y * 256 + z"
  define s0 where "s0 = n div 262144"
  define s1 where "s1 = n div 4096 mod 64"
  define s2 where "s2 = n div 64 mod 64"
  define s3 where "s3 = n mod 64"
  have a: "x < 256" "y < 256" "z < 256"
    unfolding x_def y_def z_def
    using unsigned_less [of a] unsigned_less [of b] unsigned_less [of c] by simp_all
  have s: "s0 < 64" "s1 < 64" "s2 < 64" "s3 < 64"
    unfolding s0_def s1_def s2_def s3_def n_def using a by simp_all
  have w: "(word_of_nat x :: byte) = a" "(word_of_nat y :: byte) = b" "(word_of_nat z :: byte) = c"
    unfolding x_def y_def z_def by simp_all
  have e: "b64encode (a # b # c # rest) =
             [b64_char s0, b64_char s1, b64_char s2, b64_char s3] @ b64encode rest"
    by (simp add: Let_def s0_def s1_def s2_def s3_def n_def x_def y_def z_def)
  have q: "s0 * 262144 + s1 * 4096 + s2 * 64 + s3 = n"
    unfolding s0_def s1_def s2_def s3_def by (rule b64_quantum)
  have by3: "n div 65536 = x" "n div 256 mod 256 = y" "n mod 256 = z"
    unfolding n_def using b64_three [OF a(2) a(3), of x] by simp_all
  have "b64decode (b64encode (a # b # c # rest)) =
          map_option ((@) [word_of_nat ((s0 * 262144 + s1 * 4096 + s2 * 64 + s3) div 65536),
                           word_of_nat ((s0 * 262144 + s1 * 4096 + s2 * 64 + s3) div 256 mod 256),
                           word_of_nat ((s0 * 262144 + s1 * 4096 + s2 * 64 + s3) mod 256)])
            (b64decode (b64encode rest))"
    unfolding e using s by (simp add: Let_def b64_index_char b64_char_not_pad)
  then show ?case unfolding q by3 w using 4 by simp
qed

section \<open>Required fields\<close>

text \<open>
  C7.  A submission in which the name, the email address or the skills are empty is not
  processed: the page is the form followed by the error message, it has no download
  link, and the only calls to the service are the skill suggestions that the form makes
  for its experience rows whether it is submitted or not; no document is generated and
  no resume content is enriched.  A submission in which the three fields are not empty
  is processed: \<open>generate_resume\<close> returns a document for the entries of the form, the
  page has the download link, and the error message is not shown.
\<close>

theorem required_fields_check:
  "(name = [] \<or> email = [] \<or> skills = [] \<longrightarrow>
      main svc lib name email phone linkedin github skills experience_rows education_rows
        project_rows job_description True lg =
        (fst (main svc lib name email phone linkedin github skills experience_rows education_rows
                project_rows job_description False lg)
           @ [St_error ''Please fill in all required fields (Name, Email, Skills).''],
         snd (main svc lib name email phone linkedin github skills experience_rows education_rows
                project_rows job_description False lg))
    \<and> \<not> list_ex is_markdown
          (fst (main svc lib name email phone linkedin github skills experience_rows
                  education_rows project_rows job_description True lg))
    \<and> snd (main svc lib name email phone linkedin github skills experience_rows education_rows
              project_rows job_description True lg) =
        lg @ map (\<lambda>(title, company, dates, description).
                    ''Extract a list of relevant skills from the following job description:\<newline>\<newline>''
                      @ description) experience_rows)
   \<and> (name \<noteq> [] \<and> email \<noteq> [] \<and> skills \<noteq> [] \<longrightarrow>
        (\<exists>document lg0 lg1.
           generate_resume svc name email phone linkedin github skills
             (map (\<lambda>(title, company, dates, description).
                     [''title'' \<mapsto> title, ''company'' \<mapsto> company, ''dates'' \<mapsto> dates,
                      ''description'' \<mapsto> description]) experience_rows)
             (map (\<lambda>(degree, school, dates, description).
                     [''degree'' \<mapsto> degree, ''school'' \<mapsto> school, ''dates'' \<mapsto> dates,
                      ''description'' \<mapsto> description]) education_rows)
             (map (\<lambda>(title, description). [''title'' \<mapsto> title, ''description'' \<mapsto> description])
                project_rows)
             lg0 = (Inr document, lg1))
      \<and> list_ex is_markdown
          (fst (main svc lib name email phone linkedin github skills experience_rows
                  education_rows project_rows job_description True lg))
      \<and> (\<forall>ev \<in> set (fst (main svc lib name email phone linkedin github skills experience_rows
                  education_rows project_rows job_description True lg)).
            ev \<noteq> St_error ''Please fill in all required fields (Name, Email, Skills).''))"
proof (intro conjI impI)
  assume "name = [] \<or> email = [] \<or> skills = []"
  then show "main svc lib name email phone linkedin github skills experience_rows education_rows
        project_rows job_description True lg =
        (fst (main svc lib name email phone linkedin github skills experience_rows education_rows
                project_rows job_description False lg)
           @ [St_error ''Please fill in all required fields (Name, Email, Skills).''],
         snd (main svc lib name email phone linkedin github skills experience_rows education_rows
                project_rows job_description False lg))"
    by (simp add: main_unfold)
next
  assume "name = [] \<or> email = [] \<or> skills = []"
  then show "\<not> list_ex is_markdown
          (fst (main svc lib name email phone linkedin github skills experience_rows
                  education_rows project_rows job_description True lg))"
    using form_shown_no_markdown [of svc experience_rows education_rows project_rows lg]
    by (simp add: main_unfold)
next
  assume "name = [] \<or> email = [] \<or> skills = []"
  then show "snd (main svc lib name email phone linkedin github skills experience_rows education_rows
              project_rows job_description True lg) =
        lg @ map (\<lambda>(title, company, dates, description).
                    ''Extract a list of relevant skills from the following job description:\<newline>\<newline>''
                      @ description) experience_rows"
    by (simp add: main_unfold experience_form_calls)
next
  assume v: "name \<noteq> [] \<and> email \<noteq> [] \<and> skills \<noteq> []"
  let ?ex = "snd (fst (experience_form svc 0 experience_rows lg))"
  let ?ed = "snd (education_form 0 education_rows)"
  let ?pr = "snd (project_form 0 project_rows)"
  let ?lgf = "snd (experience_form svc 0 experience_rows lg)"
  have f: "list_all experience_entry ?ex" "list_all education_entry ?ed"
    "list_all project_entry ?pr"
    by (rule form_entries_fields)+
  from process_submission_markdown [OF f, where lg = ?lgf and svc = svc and name = name
      and email = email and phone = phone and linkedin = linkedin and github = github
      and skills = skills and lib = lib and job_description = job_description]
  obtain document lg0 lg1 where
    g: "generate_resume svc name email phone linkedin github skills ?ex ?ed ?pr lg0
          = (Inr document, lg1)"
    and m: "filter is_markdown
               (fst (process_submission svc lib name email phone linkedin github skills
                       ?ex ?ed ?pr job_description ?lgf)) =
             [St_markdown
                (''<a href='' @ [CHR 0x22]
                 @ ''data:application/vnd.openxmlformats-officedocument.wordprocessingml.document;base64,''
                 @ b64encode (docx_save lib document) @ [CHR 0x22] @ '' download='' @ [CHR 0x22]
                 @ name @ ''_resume.docx'' @ [CHR 0x22] @ ''>Download Resume (docx)</a>'')]"
    by blast
  from g show "\<exists>document lg0 lg1.
           generate_resume svc name email phone linkedin github skills
             (map (\<lambda>(title, company, dates, description).
                     [''title'' \<mapsto> title, ''company'' \<mapsto> company, ''dates'' \<mapsto> dates,
                      ''description'' \<mapsto> description]) experience_rows)
             (map (\<lambda>(degree, school, dates, description).
                     [''degree'' \<mapsto> degree, ''school'' \<mapsto> school, ''dates'' \<mapsto> dates,
                      ''description'' \<mapsto> description]) education_rows)
             (map (\<lambda>(title, description). [''title'' \<mapsto> title, ''description'' \<mapsto> description])
                project_rows)
             lg0 = (Inr document, lg1)"
    unfolding experience_form_entries education_form_entries project_form_entries by blast
  have "filter is_markdown
          (fst (process_submission svc lib name email phone linkedin github skills
                  ?ex ?ed ?pr job_description ?lgf)) \<noteq> []"
    using m by simp
  then have "list_ex is_markdown
          (fst (process_submission svc lib name email phone linkedin github skills
                  ?ex ?ed ?pr job_description ?lgf))"
    by (simp add: list_ex_iff filter_empty_conv)
  then show "list_ex is_markdown
          (fst (main svc lib name email phone linkedin github skills experience_rows
                  education_rows project_rows job_description True lg))"
    using v by (simp add: main_unfold)
  show "\<forall>ev \<in> set (fst (main svc lib name email phone linkedin github skills experience_rows
                  education_rows project_rows job_description True lg)).
            ev \<noteq> St_error ''Please fill in all required fields (Name, Email, Skills).''"
  proof
    fix ev
    assume "ev \<in> set (fst (main svc lib name email phone linkedin github skills experience_rows
                  education_rows project_rows job_description True lg))"
    then have "ev \<in> set (form_shown svc experience_rows education_rows project_rows lg)
      \<or> ev \<in> set (fst (process_submission svc lib name email phone linkedin github skills
                  ?ex ?ed ?pr job_description ?lgf))"
      using v by (simp add: main_unfold)
    then have "\<not> is_error ev"
      using form_shown_no_error [of svc experience_rows education_rows project_rows lg]
        process_submission_no_error [of svc lib name email phone linkedin github skills
          ?ex ?ed ?pr job_description ?lgf]
      by (auto simp: list_ex_iff)
    then show "ev \<noteq> St_error ''Please fill in all required fields (Name, Email, Skills).''"
      by auto
  qed
qed

theorem required_fields_check_witness:
  "main (\<lambda>_ _. Text ''OK'')
      \<lparr>urlparse = (\<lambda>_. None), docx_save = (\<lambda>_. [0x50, 0x4B]), qr_png = (\<lambda>_. [0x89])\<rparr>
      ''Ada'' '''' ''555'' ''ada'' ''ada'' ''Python''
      [(''Engineer'', ''Acme'', ''2020'', ''Built models.'')] [] [] ''Job'' True []
    = ([St_title ''Smart Resume Generator'', St_header ''Personal Information'',
        St_header ''Skills'', St_header ''Experience'', St_subheader ''Experience #1'',
        St_write ''Suggested Skills for this Experience:\<newline>OK'',
        St_header ''Education'', St_header ''Projects'', St_header ''Job Description Analysis'',
        St_error ''Please fill in all required fields (Name, Email, Skills).''],
       [''Extract a list of relevant skills from the following job description:\<newline>\<newline>Built models.''])
   \<and> list_ex is_markdown
        (fst (main (\<lambda>_ _. Text ''OK'')
                \<lparr>urlparse = (\<lambda>_. None), docx_save = (\<lambda>_. [0x50, 0x4B]), qr_png = (\<lambda>_. [0x89])\<rparr>
                ''Ada'' ''ada@example.org'' ''555'' ''ada'' ''ada'' ''Python''
                [(''Engineer'', ''Acme'', ''2020'', ''Built models.'')] [] [] ''Job'' True []))"
proof -
  let ?svc = "\<lambda>(_::calls) (_::string). Text ''OK''"
  let ?lib = "\<lparr>urlparse = (\<lambda>_. None), docx_save = (\<lambda>_. [0x50, 0x4B]), qr_png = (\<lambda>_. [0x89])\<rparr>"
  let ?rows = "[(''Engineer'', ''Acme'', ''2020'', ''Built models.'')]"
  have u: "main ?svc ?lib ''Ada'' '''' ''555'' ''ada'' ''ada'' ''Python'' ?rows [] [] ''Job'' False []
    = ([St_title ''Smart Resume Generator'', St_header ''Personal Information'',
        St_header ''Skills'', St_header ''Experience'', St_subheader ''Experience #1'',
        St_write ''Suggested Skills for this Experience:\<newline>OK'',
        St_header ''Education'', St_header ''Projects'', St_header ''Job Description Analysis''],
       [''Extract a list of relevant skills from the following job description:\<newline>\<newline>Built models.''])"
    by (simp add: main_def generate_skills_suggestions_def generate_content_def Let_def
        str.simps digit_char_def)
  have 1: "''Ada'' = [] \<or> '''' = [] \<or> ''Python'' = []" by simp
  have 2: "''Ada'' \<noteq> [] \<and> ''ada@example.org'' \<noteq> [] \<and> ''Python'' \<noteq> []" by simp
  note g1 = required_fields_check [where name = "''Ada''" and email = "''''" and skills = "''Python''"
      and svc = ?svc and lib = ?lib and phone = "''555''" and linkedin = "''ada''"
      and github = "''ada''" and experience_rows = ?rows and education_rows = "[]"
      and project_rows = "[]" and job_description = "''Job''" and lg = "[]"]
  note g2 = required_fields_check [where name = "''Ada''" and email = "''ada@example.org''"
      and skills = "''Python''"
      and svc = ?svc and lib = ?lib and phone = "''555''" and linkedin = "''ada''"
      and github = "''ada''" and experience_rows = ?rows and education_rows = "[]"
      and project_rows = "[]" and job_description = "''Job''" and lg = "[]"]
  from g1 1 have a: "main ?svc ?lib ''Ada'' '''' ''555'' ''ada'' ''ada'' ''Python'' ?rows [] [] ''Job'' True []
    = (fst (main ?svc ?lib ''Ada'' '''' ''555'' ''ada'' ''ada'' ''Python'' ?rows [] [] ''Job'' False [])
         @ [St_error ''Please fill in all required fields (Name, Email, Skills).''],
       snd (main ?svc ?lib ''Ada'' '''' ''555'' ''ada'' ''ada'' ''Python'' ?rows [] [] ''Job'' False []))"
    by blast
  from g2 2 have b: "list_ex is_markdown
        (fst (main ?svc ?lib ''Ada'' ''ada@example.org'' ''555'' ''ada'' ''ada'' ''Python''
                ?rows [] [] ''Job'' True []))"
    by blast
  from a b show ?thesis unfolding u by simp
qed


section \<open>The API key\<close>

text \<open>
  C8.  The key is read from the process environment as \<open>os.getenv\<close> finds it at startup,
  that is after \<open>load_dotenv\<close> has added the variables of the \<open>.env\<close> file.  When the key
  is absent there, the script shows the error and stops: \<open>main\<close> is not run, so no form
  is shown, no submission is served and no call is made.  A key that is set to the empty
  string is no credential and stops the script in the same way.  When a non-empty key is
  present the script runs \<open>main\<close>.
\<close>

theorem missing_api_key_stops:
  "(getenv (load_dotenv dotenv environ) ''GOOGLE_API_KEY'' = None \<longrightarrow>
      app2 dotenv environ svc lib name email phone linkedin github skills experience_rows
        education_rows project_rows job_description submitted lg
        = ([St_error ''Please set the GOOGLE_API_KEY environment variable.''], lg))
   \<and> (getenv (load_dotenv dotenv environ) ''GOOGLE_API_KEY'' = Some [] \<longrightarrow>
      app2 dotenv environ svc lib name email phone linkedin github skills experience_rows
        education_rows project_rows job_description submitted lg
        = ([St_error ''Please set the GOOGLE_API_KEY environment variable.''], lg))
   \<and> (\<forall>key. getenv (load_dotenv dotenv environ) ''GOOGLE_API_KEY'' = Some key \<and> key \<noteq> [] \<longrightarrow>
      app2 dotenv environ svc lib name email phone linkedin github skills experience_rows
        education_rows project_rows job_description submitted lg
        = main svc lib name email phone linkedin github skills experience_rows
            education_rows project_rows job_description submitted lg)"
  by (simp add: app2_def)

theorem missing_api_key_stops_witness:
  "app2 Map.empty Map.empty (\<lambda>_ _. Text ''OK'')
      \<lparr>urlparse = (\<lambda>_. None), docx_save = (\<lambda>_. [0x50, 0x4B]), qr_png = (\<lambda>_. [0x89])\<rparr>
      ''Ada'' ''ada@example.org'' ''555'' ''ada'' ''ada'' ''Python'' [] [] [] ''Job'' True []
     = ([St_error ''Please set the GOOGLE_API_KEY environment variable.''], [])
   \<and> app2 Map.empty [''GOOGLE_API_KEY'' \<mapsto> ''''] (\<lambda>_ _. Text ''OK'')
      \<lparr>urlparse = (\<lambda>_. None), docx_save = (\<lambda>_. [0x50, 0x4B]), qr_png = (\<lambda>_. [0x89])\<rparr>
      ''Ada'' ''ada@example.org'' ''555'' ''ada'' ''ada'' ''Python'' [] [] [] ''Job'' True []
     = ([St_error ''Please set the GOOGLE_API_KEY environment variable.''], [])
   \<and> app2 [''GOOGLE_API_KEY'' \<mapsto> ''k3y''] Map.empty (\<lambda>_ _. Text ''OK'')
      \<lparr>urlparse = (\<lambda>_. None), docx_save = (\<lambda>_. [0x50, 0x4B]), qr_png = (\<lambda>_. [0x89])\<rparr>
      ''Ada'' ''ada@example.org'' ''555'' ''ada'' ''ada'' ''Python'' [] [] [] ''Job'' True []
     = main (\<lambda>_ _. Text ''OK'')
      \<lparr>urlparse = (\<lambda>_. None), docx_save = (\<lambda>_. [0x50, 0x4B]), qr_png = (\<lambda>_. [0x89])\<rparr>
      ''Ada'' ''ada@example.org'' ''555'' ''ada'' ''ada'' ''Python'' [] [] [] ''Job'' True []"
proof -
  let ?svc = "\<lambda>(_::calls) (_::string). Text ''OK''"
  let ?lib = "\<lparr>urlparse = (\<lambda>_. None), docx_save = (\<lambda>_. [0x50, 0x4B]), qr_png = (\<lambda>_. [0x89])\<rparr>"
  have 1: "getenv (load_dotenv Map.empty Map.empty) ''GOOGLE_API_KEY'' = None"
    by (simp add: getenv_def load_dotenv_def)
  have 2: "getenv (load_dotenv Map.empty [''GOOGLE_API_KEY'' \<mapsto> '''']) ''GOOGLE_API_KEY'' = Some []"
    by (simp add: getenv_def load_dotenv_def)
  have 3: "getenv (load_dotenv [''GOOGLE_API_KEY'' \<mapsto> ''k3y''] Map.empty) ''GOOGLE_API_KEY''
             = Some ''k3y'' \<and> ''k3y'' \<noteq> []"
    by (simp add: getenv_def load_dotenv_def)
  show ?thesis
    using 1 2 3
      missing_api_key_stops [where dotenv = Map.empty and environ = Map.empty and svc = ?svc
        and lib = ?lib and name = "''Ada''" and email = "''ada@example.org''" and phone = "''555''"
        and linkedin = "''ada''" and github = "''ada''" and skills = "''Python''"
        and experience_rows = "[]" and education_rows = "[]" and project_rows = "[]"
        and job_description = "''Job''" and submitted = True and lg = "[]"]
      missing_api_key_stops [where dotenv = Map.empty and environ = "[''GOOGLE_API_KEY'' \<mapsto> '''']"
        and svc = ?svc
        and lib = ?lib and name = "''Ada''" and email = "''ada@example.org''" and phone = "''555''"
        and linkedin = "''ada''" and github = "''ada''" and skills = "''Python''"
        and experience_rows = "[]" and education_rows = "[]" and project_rows = "[]"
        and job_description = "''Job''" and submitted = True and lg = "[]"]
      missing_api_key_stops [where dotenv = "[''GOOGLE_API_KEY'' \<mapsto> ''k3y'']" and environ = Map.empty
        and svc = ?svc
        and lib = ?lib and name = "''Ada''" and email = "''ada@example.org''" and phone = "''555''"
        and linkedin = "''ada''" and github = "''ada''" and skills = "''Python''"
        and experience_rows = "[]" and education_rows = "[]" and project_rows = "[]"
        and job_description = "''Job''" and submitted = True and lg = "[]"]
    by blast
qed

section \<open>The file name of the download\<close>

text \<open>
  C9.  For a submission that is processed, the page has exactly one link.  Its
  \<open>download\<close> attribute is the name as typed followed by \<open>_resume.docx\<close>, between
  double quotes; no character of the name is removed or escaped, so a double quote or an
  angle bracket in the name ends up in the HTML as it is.  The link carries the base64
  text of the serialized document.
\<close>

theorem download_link_filename:
  assumes "name \<noteq> []" and "email \<noteq> []" and "skills \<noteq> []"
  shows "\<exists>document lg0 lg1.
           generate_resume svc name email phone linkedin github skills
             (map (\<lambda>(title, company, dates, description).
                     [''title'' \<mapsto> title, ''company'' \<mapsto> company, ''dates'' \<mapsto> dates,
                      ''description'' \<mapsto> description]) experience_rows)
             (map (\<lambda>(degree, school, dates, description).
                     [''degree'' \<mapsto> degree, ''school'' \<mapsto> school, ''dates'' \<mapsto> dates,
                      ''description'' \<mapsto> description]) education_rows)
             (map (\<lambda>(title, description). [''title'' \<mapsto> title, ''description'' \<mapsto> description])
                project_rows)
             lg0 = (Inr document, lg1)
         \<and> filter is_markdown
              (fst (main svc lib name email phone linkedin github skills experience_rows
                      education_rows project_rows job_description True lg)) =
             [St_markdown
                (''<a href='' @ [CHR 0x22]
                 @ ''data:application/vnd.openxmlformats-officedocument.wordprocessingml.document;base64,''
                 @ b64encode (docx_save lib document) @ [CHR 0x22] @ '' download='' @ [CHR 0x22]
                 @ name @ ''_resume.docx'' @ [CHR 0x22] @ ''>Download Resume (docx)</a>'')]"
proof -
  let ?ex = "snd (fst (experience_form svc 0 experience_rows lg))"
  let ?ed = "snd (education_form 0 education_rows)"
  let ?pr = "snd (project_form 0 project_rows)"
  let ?lgf = "snd (experience_form svc 0 experience_rows lg)"
  have f: "list_all experience_entry ?ex" "list_all education_entry ?ed"
    "list_all project_entry ?pr"
    by (rule form_entries_fields)+
  from process_submission_markdown [OF f, where lg = ?lgf and svc = svc and name = name
      and email = email and phone = phone and linkedin = linkedin and github = github
      and skills = skills and lib = lib and job_description = job_description]
  obtain document lg0 lg1 where
    g: "generate_resume svc name email phone linkedin github skills ?ex ?ed ?pr lg0
          = (Inr document, lg1)"
    and m: "filter is_markdown
               (fst (process_submission svc lib name email phone linkedin github skills
                       ?ex ?ed ?pr job_description ?lgf)) =
             [St_markdown
                (''<a href='' @ [CHR 0x22]
                 @ ''data:application/vnd.openxmlformats-officedocument.wordprocessingml.document;base64,''
                 @ b64encode (docx_save lib document) @ [CHR 0x22] @ '' download='' @ [CHR 0x22]
                 @ name @ ''_resume.docx'' @ [CHR 0x22] @ ''>Download Resume (docx)</a>'')]"
    by blast
  have n: "filter is_markdown (form_shown svc experience_rows education_rows project_rows lg) = []"
    using form_shown_no_markdown [of svc experience_rows education_rows project_rows lg]
    by (simp add: list_ex_iff filter_empty_conv)
  have "filter is_markdown
              (fst (main svc lib name email phone linkedin github skills experience_rows
                      education_rows project_rows job_description True lg)) =
             [St_markdown
                (''<a href='' @ [CHR 0x22]
                 @ ''data:application/vnd.openxmlformats-officedocument.wordprocessingml.document;base64,''
                 @ b64encode (docx_save lib document) @ [CHR 0x22] @ '' download='' @ [CHR 0x22]
                 @ name @ ''_resume.docx'' @ [CHR 0x22] @ ''>Download Resume (docx)</a>'')]"
    using assms n m by (simp add: main_unfold)
  with g show ?thesis
    unfolding experience_form_entries education_form_entries project_form_entries by blast
qed

theorem download_link_filename_witness:
  "\<exists>document lg0 lg1.
     generate_resume (\<lambda>_ _. Text ''OK'') (''a'' @ [CHR 0x22] @ ''><b>'') ''ada@example.org''
       ''555'' ''ada'' ''ada'' ''Python'' [] [] [] lg0 = (Inr document, lg1)
   \<and> filter is_markdown
        (fst (main (\<lambda>_ _. Text ''OK'')
                \<lparr>urlparse = (\<lambda>_. None), docx_save = (\<lambda>_. [0x50, 0x4B]), qr_png = (\<lambda>_. [0x89])\<rparr>
                (''a'' @ [CHR 0x22] @ ''><b>'') ''ada@example.org'' ''555'' ''ada'' ''ada''
                ''Python'' [] [] [] ''Job'' True [])) =
       [St_markdown
          (''<a href='' @ [CHR 0x22]
           @ ''data:application/vnd.openxmlformats-officedocument.wordprocessingml.document;base64,''
           @ ''UEs='' @ [CHR 0x22] @ '' download='' @ [CHR 0x22]
           @ ''a'' @ [CHR 0x22] @ ''><b>'' @ ''_resume.docx'' @ [CHR 0x22]
           @ ''>Download Resume (docx)</a>'')]"
proof -
  have 1: "''a'' @ [CHR 0x22] @ ''><b>'' \<noteq> []" "''ada@example.org'' \<noteq> []" "''Python'' \<noteq> []"
    by simp_all
  have b: "b64encode [0x50, 0x4B] = ''UEs=''"
    by (simp add: Let_def b64_char_def b64_alphabet_def)
  show ?thesis
    using download_link_filename [OF 1, where svc = "\<lambda>_ _. Text ''OK''"
        and lib = "\<lparr>urlparse = (\<lambda>_. None), docx_save = (\<lambda>_. [0x50, 0x4B]), qr_png = (\<lambda>_. [0x89])\<rparr>"
        and phone = "''555''" and linkedin = "''ada''" and github = "''ada''"
        and experience_rows = "[]" and education_rows = "[]" and project_rows = "[]"
        and job_description = "''Job''" and lg = "[]"] b
    by simp
qed

end
